theory Spec2Isabelle
  imports Main "HOL-Library.Word"
begin

section \<open>The bridge's entities\<close>

text \<open>
  Modelled from the spec: the entity types of the bridge client library
  (\<^verbatim>\<open>huego.Light\<close>, \<^verbatim>\<open>huego.Group\<close>, \<^verbatim>\<open>huego.Sensor\<close>, \<^verbatim>\<open>huego.NewLight\<close>,
  \<^verbatim>\<open>huego.State\<close>), whose declarations are not among the sources. Each record holds
  the attributes the collector reads: identifier, on/off state, brightness 0..255, name
  or type, the group's membership list (light identifiers as decimal strings), and the
  last-scan timestamp of a new-light batch. A light and a group come with their state,
  and a fetched new-light batch is not nil.
\<close>

record State =
  On :: bool
  Bri :: "8 word"

record Light =
  Light_ID :: int
  Light_State :: State

record Group =
  Group_Name :: string
  Group_Lights :: "string list"
  Group_State :: State
  Group_ID :: int

record Sensor =
  Sensor_Type :: string
  Sensor_ID :: int

record NewLight =
  NewLight_Lights :: "string list"
  LastScan :: string

section \<open>Observations\<close>

text \<open>
  An attribute is a key with a boolean, integer or string value
  (\<^verbatim>\<open>attribute.Bool\<close>, \<^verbatim>\<open>attribute.Int\<close>, \<^verbatim>\<open>attribute.String\<close>).
  \<^verbatim>\<open>metric.Int64ObserverResult\<close> is the sequence of observations made so far;
  \<^verbatim>\<open>res.Observe(v, labels...)\<close> appends one.
\<close>

datatype attr_value = ABool bool | AInt int | AString string

type_synonym KeyValue = "string \<times> attr_value"

record Observation =
  obs_value :: int
  obs_labels :: "KeyValue list"

type_synonym Int64ObserverResult = "Observation list"

type_synonym 'c Int64ObserverFunc = "'c \<Rightarrow> Int64ObserverResult \<Rightarrow> Int64ObserverResult"

definition Observe :: "Int64ObserverResult \<Rightarrow> int \<Rightarrow> KeyValue list \<Rightarrow> Int64ObserverResult" where
  "Observe res v ls = res @ [\<lparr>obs_value = v, obs_labels = ls\<rparr>]"

text \<open>The value of the label with key \<open>k\<close>, if the observation has one.\<close>

definition label :: "string \<Rightarrow> Observation \<Rightarrow> attr_value option" where
  "label k ob = map_of (obs_labels ob) k"

section \<open>Group membership\<close>

text \<open>
  \<^verbatim>\<open>strconv.Itoa\<close>: the decimal digits of an integer, with a leading minus sign
  for a negative one.
\<close>

definition digit :: "nat \<Rightarrow> char" where
  "digit d = ''0123456789'' ! d"

function FormatUint :: "nat \<Rightarrow> string" where
  "FormatUint n = (if n < 10 then [digit n] else FormatUint (n div 10) @ [digit (n mod 10)])"
  by pat_completeness auto
termination
  by (relation "measure id") auto

declare FormatUint.simps [simp del]

definition Itoa :: "int \<Rightarrow> string" where
  "Itoa i = (if i < 0 then CHR ''-'' # FormatUint (nat (- i)) else FormatUint (nat i))"

text \<open>
  \<^verbatim>\<open>type lightGroup struct { huego.Group }\<close> wraps a group;
  \<^verbatim>\<open>lightGroup.lightExists\<close> scans the group's membership list for the decimal
  rendering of the identifier.
\<close>

datatype lightGroup = lightGroup (the_Group: Group)

type_synonym lightGroups = "lightGroup list"

fun lights_contain :: "string list \<Rightarrow> int \<Rightarrow> bool" where
  "lights_contain [] i = False"
| "lights_contain (light # rest) i = (if light = Itoa i then True else lights_contain rest i)"

definition lightGroup_lightExists :: "lightGroup \<Rightarrow> int \<Rightarrow> bool" where
  "lightGroup_lightExists lg i = lights_contain (Group_Lights (the_Group lg)) i"

text \<open>
  \<^verbatim>\<open>lightGroups.lightExists\<close> walks the groups in order and returns the first one
  that holds the identifier, or nil.
\<close>

fun lightExists :: "lightGroups \<Rightarrow> int \<Rightarrow> lightGroup option" where
  "lightExists [] i = None"
| "lightExists (g # lgs) i = (if lightGroup_lightExists g i then Some g else lightExists lgs i)"

section \<open>The observers\<close>

text \<open>
  \<open>assignedGroup\<close> is the body's local variable: the empty string unless the lookup
  finds a group, whose name it then takes.
\<close>

definition assignedGroup :: "lightGroups \<Rightarrow> Light \<Rightarrow> string" where
  "assignedGroup groups l =
     (case lightExists groups (Light_ID l) of
        None \<Rightarrow> ''''
      | Some g \<Rightarrow> Group_Name (the_Group g))"

definition lightObserver :: "Light list \<Rightarrow> lightGroups \<Rightarrow> 'c Int64ObserverFunc" where
  "lightObserver lights groups = (\<lambda>ctx res.
     if length lights = 0 then Observe res 0 []
     else foldl (\<lambda>res l. Observe res 1
            [(''on'', ABool (On (Light_State l))),
             (''id'', AInt (Light_ID l)),
             (''group'', AString (assignedGroup groups l))]) res lights)"

definition lightBrightnessObserver :: "Light list \<Rightarrow> lightGroups \<Rightarrow> 'c Int64ObserverFunc" where
  "lightBrightnessObserver lights groups = (\<lambda>ctx res.
     if length lights = 0 then Observe res 0 []
     else foldl (\<lambda>res l. Observe res (uint (Bri (Light_State l)))
            [(''on'', ABool (On (Light_State l))),
             (''id'', AInt (Light_ID l)),
             (''group'', AString (assignedGroup groups l))]) res lights)"

definition newLightObserver :: "NewLight \<Rightarrow> 'c Int64ObserverFunc" where
  "newLightObserver v = (\<lambda>ctx res.
     if length (NewLight_Lights v) = 0 then Observe res 0 [(''lastScan'', AString (LastScan v))]
     else foldl (\<lambda>res l. Observe res 1
            [(''name'', AString l),
             (''lastScan'', AString (LastScan v))]) res (NewLight_Lights v))"

definition groupObserver :: "Group list \<Rightarrow> 'c Int64ObserverFunc" where
  "groupObserver groups = (\<lambda>ctx res.
     if length groups = 0 then Observe res 0 []
     else foldl (\<lambda>res g. Observe res 1
            [(''on'', ABool (On (Group_State g))),
             (''id'', AInt (Group_ID g)),
             (''bri'', AInt (uint (Bri (Group_State g)))),
             (''name'', AString (Group_Name g))]) res groups)"

definition sensorObserver :: "Sensor list \<Rightarrow> 'c Int64ObserverFunc" where
  "sensorObserver sensors = (\<lambda>ctx res.
     if length sensors = 0 then Observe res 0 []
     else foldl (\<lambda>res s. Observe res 1
            [(''type'', AString (Sensor_Type s)),
             (''id'', AInt (Sensor_ID s))]) res sensors)"

text \<open>
  The keys under which the recording loops label a single entity. \<open>lastScan\<close> is not
  among them: it is an attribute of the new-light batch as a whole
  (\<^verbatim>\<open>v.LastScan\<close>), the same on every observation of the batch.
\<close>

definition entity_labels :: "string list" where
  "entity_labels = [''on'', ''id'', ''group'', ''bri'', ''name'', ''type'']"

subsection \<open>A sample snapshot\<close>

text \<open>
  Three lights, the first in ``Group A'', the others in no group; a second group
  ``Downstairs'' that also holds the first light; one sensor; one newly found light.
\<close>

definition sample_lights :: "Light list" where
  "sample_lights =
     [\<lparr>Light_ID = 1, Light_State = \<lparr>On = True, Bri = 254\<rparr>\<rparr>,
      \<lparr>Light_ID = 2, Light_State = \<lparr>On = False, Bri = 0\<rparr>\<rparr>,
      \<lparr>Light_ID = 3, Light_State = \<lparr>On = True, Bri = 77\<rparr>\<rparr>]"

definition group_A :: Group where
  "group_A = \<lparr>Group_Name = ''Group A'', Group_Lights = [''1''],
              Group_State = \<lparr>On = True, Bri = 254\<rparr>, Group_ID = 1\<rparr>"

definition downstairs :: Group where
  "downstairs = \<lparr>Group_Name = ''Downstairs'', Group_Lights = [''7'', ''1''],
                 Group_State = \<lparr>On = True, Bri = 100\<rparr>, Group_ID = 2\<rparr>"

definition sample_sensors :: "Sensor list" where
  "sample_sensors = [\<lparr>Sensor_Type = ''Daylight'', Sensor_ID = 1\<rparr>]"

definition sample_new :: NewLight where
  "sample_new = \<lparr>NewLight_Lights = [''Hue Lamp 7''], LastScan = ''2021-05-01T10:00:00''\<rparr>"

section \<open>Errors and log records\<close>

text \<open>
  Errors are values. \<open>Upstream\<close> stands for an error of a collaborator (the bridge
  client, the meter), \<open>Wrapped msg err\<close> for \<^verbatim>\<open>fmt.Errorf(msg + ": %w", err)\<close>,
  \<open>Canceled\<close> and \<open>DeadlineExceeded\<close> for the two errors of a context.
\<close>

datatype error =
    ErrInvalidLogger
  | ErrInvalidExporter
  | Canceled
  | DeadlineExceeded
  | Upstream string
  | Wrapped string error

datatype level = InfoLevel | ErrorLevel

datatype field = zap_Error error | zap_Int string nat

record log_entry =
  log_level :: level
  log_msg :: string
  log_fields :: "field list"

section \<open>Collection jobs\<close>

text \<open>
  What the bridge and the meter answer to one job during one cycle. Each job calls each
  fetch and registers each metric family at most once per cycle, so one answer per
  fetch and one per family name describe the collaborators completely.
\<close>

record job_env =
  GetGroupsContext :: "error + Group list"
  GetLightsContext :: "error + Light list"
  GetNewLightsContext :: "error + NewLight"
  GetSensorsContext :: "error + Sensor list"
  registration :: "string \<Rightarrow> error option"

text \<open>
  The effects of a job: the log records it wrote and the gauges it registered (family
  name and callback), both in program order.
\<close>

datatype Context = Background | WithSpan Context string

record job_state =
  logs :: "log_entry list"
  gauges :: "(string \<times> Context Int64ObserverFunc) list"

definition log_Error :: "string \<Rightarrow> error \<Rightarrow> job_state \<Rightarrow> job_state" where
  "log_Error msg err s =
     s\<lparr>logs := logs s @ [\<lparr>log_level = ErrorLevel, log_msg = msg, log_fields = [zap_Error err]\<rparr>]\<rparr>"

definition log_Info :: "string \<Rightarrow> field list \<Rightarrow> job_state \<Rightarrow> job_state" where
  "log_Info msg fs s =
     s\<lparr>logs := logs s @ [\<lparr>log_level = InfoLevel, log_msg = msg, log_fields = fs\<rparr>]\<rparr>"

text \<open>
  \<^verbatim>\<open>meter.NewInt64GaugeObserver(name, callback, ...)\<close>: the meter either refuses
  with an error or takes the callback for the family.
\<close>

definition NewInt64GaugeObserver ::
  "job_env \<Rightarrow> string \<Rightarrow> Context Int64ObserverFunc \<Rightarrow> job_state \<Rightarrow> error option \<times> job_state" where
  "NewInt64GaugeObserver env name cb s =
     (case registration env name of
        Some err \<Rightarrow> (Some err, s)
      | None \<Rightarrow> (None, s\<lparr>gauges := gauges s @ [(name, cb)]\<rparr>))"

text \<open>
  \<^verbatim>\<open>lights.Collect\<close>. The result is the returned error (\<open>None\<close> for nil) with the
  state the job leaves.
\<close>

definition lights_Collect :: "job_env \<Rightarrow> job_state \<Rightarrow> error option \<times> job_state" where
  "lights_Collect env s0 =
     (case GetGroupsContext env of
        Inl err \<Rightarrow> (Some err, log_Error ''failed to fetch groups'' err s0)
      | Inr hueGroups \<Rightarrow>
          let groups = foldl (\<lambda>groups g. groups @ [lightGroup g]) [] hueGroups in
          (case GetLightsContext env of
             Inl err \<Rightarrow> (Some err, log_Error ''failed to fetch lights'' err s0)
           | Inr lights \<Rightarrow>
               let s1 = log_Info ''collecting lights'' [zap_Int ''count'' (length lights)] s0 in
               (case NewInt64GaugeObserver env ''light'' (lightObserver lights groups) s1 of
                  (Some err, s2) \<Rightarrow>
                    (Some (Wrapped ''failed to collect light count'' err),
                     log_Error ''failed to record light count'' err s2)
                | (None, s2) \<Rightarrow>
                    let s3 = log_Info ''collecting light brightness''
                               [zap_Int ''count'' (length lights)] s2 in
                    (case NewInt64GaugeObserver env ''light_brightness''
                            (lightBrightnessObserver lights groups) s3 of
                       (Some err, s4) \<Rightarrow>
                         (Some (Wrapped ''failed to collect light brightness'' err),
                          log_Error ''failed to record light brightness'' err s4)
                     | (None, s4) \<Rightarrow>
                         let s5 = log_Info ''collected light metrics'' [] s4 in
                         (case GetNewLightsContext env of
                            Inl err \<Rightarrow> (Some err, log_Error ''failed to fetch new lights'' err s5)
                          | Inr newLights \<Rightarrow>
                              let s6 = log_Info ''collecting new lights''
                                         [zap_Int ''count'' (length lights)] s5 in
                              (case NewInt64GaugeObserver env ''new_light''
                                      (newLightObserver newLights) s6 of
                                 (Some err, s7) \<Rightarrow>
                                   (Some (Wrapped ''failed to collect new light count'' err),
                                    log_Error ''failed to record new light count'' err s7)
                               | (None, s7) \<Rightarrow> (None, s7)))))))"

text \<open>\<^verbatim>\<open>groups.Collect\<close>.\<close>

definition groups_Collect :: "job_env \<Rightarrow> job_state \<Rightarrow> error option \<times> job_state" where
  "groups_Collect env s0 =
     (case GetGroupsContext env of
        Inl err \<Rightarrow> (Some err, log_Error ''failed to fetch groups'' err s0)
      | Inr groups \<Rightarrow>
          let s1 = log_Info ''collecting groups'' [zap_Int ''count'' (length groups)] s0 in
          (case NewInt64GaugeObserver env ''group'' (groupObserver groups) s1 of
             (Some err, s2) \<Rightarrow>
               (Some (Wrapped ''failed to collect group count'' err),
                log_Error ''failed to record group count'' err s2)
           | (None, s2) \<Rightarrow> (None, log_Info ''collected group metrics'' [] s2)))"

text \<open>\<^verbatim>\<open>sensors.Collect\<close>, with the messages the source has.\<close>

definition sensors_Collect :: "job_env \<Rightarrow> job_state \<Rightarrow> error option \<times> job_state" where
  "sensors_Collect env s0 =
     (case GetSensorsContext env of
        Inl err \<Rightarrow> (Some err, log_Error ''failed to fetch sensors'' err s0)
      | Inr sensors \<Rightarrow>
          let s1 = log_Info ''collecting sensors'' [zap_Int ''count'' (length sensors)] s0 in
          (case NewInt64GaugeObserver env ''sensors'' (sensorObserver sensors) s1 of
             (Some err, s2) \<Rightarrow>
               (Some (Wrapped ''failed to collect group count'' err),
                log_Error ''failed to record group count'' err s2)
           | (None, s2) \<Rightarrow> (None, log_Info ''collected group metrics'' [] s2)))"

text \<open>The families a job has registered, in order.\<close>

definition registered :: "job_state \<Rightarrow> string list" where
  "registered s = map fst (gauges s)"

definition fresh :: job_state where
  "fresh = \<lparr>logs = [], gauges = []\<rparr>"

section \<open>Constructing the Gatherer\<close>

text \<open>
  The collaborators are handles: a logger, a meter obtained from a meter provider, a
  ticker with its period in nanoseconds, and the bridge client that
  \<^verbatim>\<open>huego.New(ip, username)\<close> builds. A nil pointer or interface, and the zero
  value of the meter, is \<open>None\<close>.
\<close>

datatype Logger = Logger string

datatype MeterProvider = MeterProvider string

datatype Meter = Meter MeterProvider string

datatype Ticker = Ticker int

datatype Bridge = Bridge string string

record HueConfig =
  IP :: string
  Username :: string

text \<open>The three job structs hold the same fields: \<open>log\<close>, \<open>meter\<close>, \<open>hue\<close>.\<close>

datatype CollectJob =
    lights_job "Logger option" "Meter option" "Bridge option"
  | groups_job "Logger option" "Meter option" "Bridge option"
  | sensors_job "Logger option" "Meter option" "Bridge option"

record Gatherer =
  log :: "Logger option"
  meter :: "Meter option"
  ticker :: Ticker
  hue :: "Bridge option"
  jobs :: "CollectJob list"

text \<open>
  A call either panics or returns. An option is a function on the Gatherer under
  construction; the four constructors are the four option makers of
  \<^verbatim>\<open>collector/option.go\<close>, each with its argument. \<^verbatim>\<open>time.NewTicker\<close> panics
  on a period that is not positive, and calling \<^verbatim>\<open>Meter\<close> on a nil provider
  panics.
\<close>

datatype 'a outcome = Panics | Returns 'a

datatype Option =
    WithLogger "Logger option"
  | WithTicker int
  | WithExporter "MeterProvider option"
  | WithHueConfig HueConfig

fun apply_Option :: "Option \<Rightarrow> Gatherer \<Rightarrow> Gatherer outcome" where
  "apply_Option (WithLogger l) c = Returns (c\<lparr>log := l\<rparr>)"
| "apply_Option (WithTicker d) c = (if d \<le> 0 then Panics else Returns (c\<lparr>ticker := Ticker d\<rparr>))"
| "apply_Option (WithExporter ex) c =
     (case ex of
        None \<Rightarrow> Panics
      | Some p \<Rightarrow> Returns (c\<lparr>meter := Some (Meter p ''hue'')\<rparr>))"
| "apply_Option (WithHueConfig cfg) c = Returns (c\<lparr>hue := Some (Bridge (IP cfg) (Username cfg))\<rparr>)"

fun apply_opts :: "Option list \<Rightarrow> Gatherer \<Rightarrow> Gatherer outcome" where
  "apply_opts [] g = Returns g"
| "apply_opts (opt # opts) g =
     (case apply_Option opt g of
        Panics \<Rightarrow> Panics
      | Returns g' \<Rightarrow> apply_opts opts g')"

definition valid :: "Gatherer \<Rightarrow> error option" where
  "valid g = (if log g = None then Some ErrInvalidLogger else None)"

definition second :: int where
  "second = 1000000000"

definition NewGatherer :: "Option list \<Rightarrow> (error + Gatherer) outcome" where
  "NewGatherer opts =
     (case apply_opts opts
             \<lparr>log = None, meter = None, ticker = Ticker (second * 5), hue = None, jobs = []\<rparr> of
        Panics \<Rightarrow> Panics
      | Returns g \<Rightarrow>
          (case valid g of
             Some err \<Rightarrow> Returns (Inl err)
           | None \<Rightarrow>
               Returns (Inr (g\<lparr>jobs :=
                 [lights_job (log g) (meter g) (hue g),
                  groups_job (log g) (meter g) (hue g),
                  sensors_job (log g) (meter g) (hue g)]\<rparr>))))"

subsection \<open>The variant that holds the Prometheus exporter\<close>








section \<open>The run loop\<close>

text \<open>
  One cycle of the world: what the collaborators answer to each of the three jobs, the
  order in which the concurrent jobs finish, and which cases of the \<^verbatim>\<open>select\<close>
  can proceed when it completes. When both can, the runtime picks one of them, and the
  pick is part of the world.
\<close>

datatype select_case = ticker_C | ctx_Done

datatype select_ready = TickerOnly | DoneOnly | Both select_case

fun chosen :: "select_ready \<Rightarrow> select_case" where
  "chosen TickerOnly = ticker_C"
| "chosen DoneOnly = ctx_Done"
| "chosen (Both c) = c"

record cycle =
  lights_env :: job_env
  groups_env :: job_env
  sensors_env :: job_env
  completion :: "nat list"
  ready :: select_ready

text \<open>
  \<^verbatim>\<open>job.Collect(ctx)\<close> and the function it returns, dispatched on the job's type.
  The job uses its three fields. \<^verbatim>\<open>Collect\<close> calls \<^verbatim>\<open>SetContext\<close> on the
  job's logger, and the returned function starts with a fetch on the job's bridge
  client: a job whose logger or bridge client is nil dereferences a nil pointer there
  and panics. The meter is a struct, and its zero value is a meter that does nothing: it
  accepts every registration and records none. Each job starts from no effects.
\<close>

fun equipped :: "CollectJob \<Rightarrow> bool" where
  "equipped (lights_job l m h) = (l \<noteq> None \<and> h \<noteq> None)"
| "equipped (groups_job l m h) = (l \<noteq> None \<and> h \<noteq> None)"
| "equipped (sensors_job l m h) = (l \<noteq> None \<and> h \<noteq> None)"

definition noop_meter ::
  "(job_env \<Rightarrow> job_state \<Rightarrow> error option \<times> job_state) \<Rightarrow>
   job_env \<Rightarrow> job_state \<Rightarrow> error option \<times> job_state" where
  "noop_meter collect env s =
     (case collect (env\<lparr>registration := (\<lambda>name. None)\<rparr>) s of
        (r, s') \<Rightarrow> (r, s'\<lparr>gauges := gauges s\<rparr>))"

fun collected :: "CollectJob \<Rightarrow> cycle \<Rightarrow> error option \<times> job_state" where
  "collected (lights_job l m h) w =
     (case m of
        Some handle \<Rightarrow> lights_Collect (lights_env w) fresh
      | None \<Rightarrow> noop_meter lights_Collect (lights_env w) fresh)"
| "collected (groups_job l m h) w =
     (case m of
        Some handle \<Rightarrow> groups_Collect (groups_env w) fresh
      | None \<Rightarrow> noop_meter groups_Collect (groups_env w) fresh)"
| "collected (sensors_job l m h) w =
     (case m of
        Some handle \<Rightarrow> sensors_Collect (sensors_env w) fresh
      | None \<Rightarrow> noop_meter sensors_Collect (sensors_env w) fresh)"

definition Collect_job :: "CollectJob \<Rightarrow> cycle \<Rightarrow> (error option \<times> job_state) outcome" where
  "Collect_job job w = (if equipped job then Returns (collected job w) else Panics)"

text \<open>
  The jobs of a cycle run in goroutines of one process: a panic in any of them ends
  the process, and only when none panics are there results to wait for.
\<close>

fun joined :: "'a outcome list \<Rightarrow> 'a list outcome" where
  "joined [] = Returns []"
| "joined (Panics # rest) = Panics"
| "joined (Returns x # rest) =
     (case joined rest of
        Panics \<Rightarrow> Panics
      | Returns xs \<Rightarrow> Returns (x # xs))"

text \<open>
  \<^verbatim>\<open>errgroup.Group.Wait\<close> returns the first error that a job returned, in the
  order the jobs finished, or nil.
\<close>

fun first_error :: "nat list \<Rightarrow> error option list \<Rightarrow> error option" where
  "first_error [] results = None"
| "first_error (i # order) results =
     (if i < length results then
        (case results ! i of Some err \<Rightarrow> Some err | None \<Rightarrow> first_error order results)
      else first_error order results)"

definition Wait :: "nat list \<Rightarrow> error option list \<Rightarrow> error option" where
  "Wait order results = first_error order results"

text \<open>
  What a run has done: for each cycle, the result and effects of each job in the order
  of the job list, and the Gatherer's own log. The jobs of a cycle run concurrently and
  no order is fixed between the log records and registrations of different jobs, so
  the effects are kept per job rather than merged. Tracing spans are left out.
\<close>

record run_state =
  cycles :: "(error option \<times> job_state) list list"
  run_log :: "log_entry list"

datatype run_result = Running | Returned "error option" | Died

text \<open>
  \<^verbatim>\<open>Gatherer.Run\<close> over a finite prefix of the world. \<open>ctx_Err\<close> is what
  \<^verbatim>\<open>ctx.Err()\<close> gives once the context is done. Each iteration begins with
  \<^verbatim>\<open>g.log.SetContext(ctx)\<close>, which panics on a nil logger, and then launches the
  jobs; a panic there or in a job leaves the process \<open>Died\<close>, with nothing more
  done. Otherwise the loop has no other exit than the \<^verbatim>\<open>ctx.Done()\<close> case, so a
  prefix on which that case is never chosen leaves the run \<open>Running\<close>.
\<close>

fun Run :: "Gatherer \<Rightarrow> error option \<Rightarrow> cycle list \<Rightarrow> run_state \<Rightarrow> run_result \<times> run_state" where
  "Run g ctx_Err [] s = (Running, s)"
| "Run g ctx_Err (w # ws) s =
     (if log g = None then (Died, s)
      else
        (case joined (map (\<lambda>job. Collect_job job w) (jobs g)) of
           Panics \<Rightarrow> (Died, s)
         | Returns outs \<Rightarrow>
             (let s1 = s\<lparr>cycles := cycles s @ [outs]\<rparr>;
                  s2 = (case Wait (completion w) (map fst outs) of
                          Some err \<Rightarrow>
                            s1\<lparr>run_log := run_log s1 @
                              [\<lparr>log_level = ErrorLevel,
                                log_msg = ''job failed to collect metrics'',
                                log_fields = [zap_Error err]\<rparr>]\<rparr>
                        | None \<Rightarrow> s1)
              in case chosen (ready w) of
                   ticker_C \<Rightarrow> Run g ctx_Err ws s2
                 | ctx_Done \<Rightarrow>
                     (Returned ctx_Err,
                      (case ctx_Err of
                         Some err \<Rightarrow>
                           s2\<lparr>run_log := run_log s2 @
                             [\<lparr>log_level = ErrorLevel, log_msg = ''context was cancelled'',
                               log_fields = [zap_Error err]\<rparr>]\<rparr>
                       | None \<Rightarrow> s2)))))"

definition idle :: run_state where
  "idle = \<lparr>cycles = [], run_log = []\<rparr>"

section \<open>A sample world\<close>

text \<open>
  A bridge that answers every fetch with the sample snapshot and a meter that accepts
  every family; a meter that refuses one family; the options that \<^verbatim>\<open>main\<close>
  passes and the Gatherer they build; a cycle in which all goes well, given what the
  \<^verbatim>\<open>select\<close> finds ready.
\<close>

definition sample_env :: job_env where
  "sample_env =
     \<lparr>GetGroupsContext = Inr [group_A, downstairs],
      GetLightsContext = Inr sample_lights,
      GetNewLightsContext = Inr sample_new,
      GetSensorsContext = Inr sample_sensors,
      registration = (\<lambda>name. None)\<rparr>"

definition refusing :: "string \<Rightarrow> error \<Rightarrow> string \<Rightarrow> error option" where
  "refusing family err = (\<lambda>name. if name = family then Some err else None)"


definition sample_gatherer :: Gatherer where
  "sample_gatherer =
     \<lparr>log = Some (Logger ''zap''),
      meter = Some (Meter (MeterProvider ''global'') ''hue''),
      ticker = Ticker (second * 5),
      hue = Some (Bridge ''192.168.1.2'' ''hue''),
      jobs =
        [lights_job (Some (Logger ''zap'')) (Some (Meter (MeterProvider ''global'') ''hue''))
           (Some (Bridge ''192.168.1.2'' ''hue'')),
         groups_job (Some (Logger ''zap'')) (Some (Meter (MeterProvider ''global'') ''hue''))
           (Some (Bridge ''192.168.1.2'' ''hue'')),
         sensors_job (Some (Logger ''zap'')) (Some (Meter (MeterProvider ''global'') ''hue''))
           (Some (Bridge ''192.168.1.2'' ''hue''))]\<rparr>"

definition sample_cycle :: "select_ready \<Rightarrow> cycle" where
  "sample_cycle r =
     \<lparr>lights_env = sample_env, groups_env = sample_env, sensors_env = sample_env,
      completion = [2, 0, 1], ready = r\<rparr>"

text \<open>
  A cycle in which the bridge does not answer the lights job's fetch of the lights, and a
  world of three cycles: that one, a good one, and a good one at whose end the context
  is done.
\<close>

definition outage :: cycle where
  "outage =
     (sample_cycle TickerOnly)
       \<lparr>lights_env := sample_env\<lparr>GetLightsContext := Inl (Upstream ''bridge unreachable'')\<rparr>\<rparr>"

definition sample_world :: "cycle list" where
  "sample_world = [outage, sample_cycle TickerOnly, sample_cycle DoneOnly]"

text \<open>
  The Gatherer that the construction returns when a logger is its only option: no
  meter, no bridge client.
\<close>

definition bare_gatherer :: Gatherer where
  "bare_gatherer =
     \<lparr>log = Some (Logger ''zap''), meter = None, ticker = Ticker (second * 5), hue = None,
      jobs = [lights_job (Some (Logger ''zap'')) None None,
              groups_job (Some (Logger ''zap'')) None None,
              sensors_job (Some (Logger ''zap'')) None None]\<rparr>"

section \<open>What an observer emits\<close>

text \<open>The recording loops append one observation per element, in order.\<close>

lemma foldl_snoc_map: "foldl (\<lambda>res x. res @ [f x]) res xs = res @ map f xs"
  by (induction xs arbitrary: res) simp_all

lemma lightObserver_eq:
  "lightObserver lights groups ctx res =
     res @ (if lights = [] then [\<lparr>obs_value = 0, obs_labels = []\<rparr>]
            else map (\<lambda>l. \<lparr>obs_value = 1, obs_labels =
              [(''on'', ABool (On (Light_State l))), (''id'', AInt (Light_ID l)),
               (''group'', AString (assignedGroup groups l))]\<rparr>) lights)"
  by (simp add: lightObserver_def foldl_snoc_map Observe_def)

lemma lightBrightnessObserver_eq:
  "lightBrightnessObserver lights groups ctx res =
     res @ (if lights = [] then [\<lparr>obs_value = 0, obs_labels = []\<rparr>]
            else map (\<lambda>l. \<lparr>obs_value = uint (Bri (Light_State l)), obs_labels =
              [(''on'', ABool (On (Light_State l))), (''id'', AInt (Light_ID l)),
               (''group'', AString (assignedGroup groups l))]\<rparr>) lights)"
  by (simp add: lightBrightnessObserver_def foldl_snoc_map Observe_def)

lemma newLightObserver_eq:
  "newLightObserver v ctx res =
     res @ (if NewLight_Lights v = [] then
              [\<lparr>obs_value = 0, obs_labels = [(''lastScan'', AString (LastScan v))]\<rparr>]
            else map (\<lambda>l. \<lparr>obs_value = 1, obs_labels =
              [(''name'', AString l), (''lastScan'', AString (LastScan v))]\<rparr>) (NewLight_Lights v))"
  by (simp add: newLightObserver_def foldl_snoc_map Observe_def)

lemma groupObserver_eq:
  "groupObserver groups ctx res =
     res @ (if groups = [] then [\<lparr>obs_value = 0, obs_labels = []\<rparr>]
            else map (\<lambda>g. \<lparr>obs_value = 1, obs_labels =
              [(''on'', ABool (On (Group_State g))), (''id'', AInt (Group_ID g)),
               (''bri'', AInt (uint (Bri (Group_State g)))),
               (''name'', AString (Group_Name g))]\<rparr>) groups)"
  by (simp add: groupObserver_def foldl_snoc_map Observe_def)

lemma sensorObserver_eq:
  "sensorObserver sensors ctx res =
     res @ (if sensors = [] then [\<lparr>obs_value = 0, obs_labels = []\<rparr>]
            else map (\<lambda>s. \<lparr>obs_value = 1, obs_labels =
              [(''type'', AString (Sensor_Type s)), (''id'', AInt (Sensor_ID s))]\<rparr>) sensors)"
  by (simp add: sensorObserver_def foldl_snoc_map Observe_def)

section \<open>Looking a light up in the groups\<close>

lemma lights_contain_iff: "lights_contain ls i \<longleftrightarrow> Itoa i \<in> set ls"
  by (induction ls) auto

lemma lightGroup_lightExists_iff:
  "lightGroup_lightExists g i \<longleftrightarrow> Itoa i \<in> set (Group_Lights (the_Group g))"
  by (simp add: lightGroup_lightExists_def lights_contain_iff)

lemma lightExists_None:
  "lightExists groups i = None \<longleftrightarrow> (\<forall>g\<in>set groups. \<not> lightGroup_lightExists g i)"
  by (induction groups) auto

lemma lightExists_Some:
  "lightExists groups i = Some g \<Longrightarrow> g \<in> set groups \<and> lightGroup_lightExists g i"
  by (induction groups) (auto split: if_splits)

lemma lightExists_first:
  "\<forall>g'\<in>set pre. \<not> lightGroup_lightExists g' i \<Longrightarrow> lightGroup_lightExists g i \<Longrightarrow>
   lightExists (pre @ g # post) i = Some g"
  by (induction pre) auto

lemma collected_groups:
  "foldl (\<lambda>groups g. groups @ [lightGroup g]) [] hueGroups = map lightGroup hueGroups"
  using foldl_snoc_map [of lightGroup "[]" hueGroups] by simp

lemma lightObserver_nth:
  assumes "i < length lights"
  shows "lightObserver lights groups ctx res ! (length res + i) =
     \<lparr>obs_value = 1, obs_labels =
        [(''on'', ABool (On (Light_State (lights ! i)))), (''id'', AInt (Light_ID (lights ! i))),
         (''group'', AString (assignedGroup groups (lights ! i)))]\<rparr>"
proof -
  from assms have "lights \<noteq> []" by auto
  with assms show ?thesis
    by (simp add: lightObserver_eq nth_append)
qed

lemma lightBrightnessObserver_nth:
  assumes "i < length lights"
  shows "lightBrightnessObserver lights groups ctx res ! (length res + i) =
     \<lparr>obs_value = uint (Bri (Light_State (lights ! i))), obs_labels =
        [(''on'', ABool (On (Light_State (lights ! i)))), (''id'', AInt (Light_ID (lights ! i))),
         (''group'', AString (assignedGroup groups (lights ! i)))]\<rparr>"
proof -
  from assms have "lights \<noteq> []" by auto
  with assms show ?thesis
    by (simp add: lightBrightnessObserver_eq nth_append)
qed

lemma assignedGroup_member:
  assumes "\<exists>g\<in>set hueGroups. Itoa (Light_ID l) \<in> set (Group_Lights g)"
  shows "\<exists>g\<in>set hueGroups. Itoa (Light_ID l) \<in> set (Group_Lights g)
           \<and> assignedGroup (map lightGroup hueGroups) l = Group_Name g"
proof (cases "lightExists (map lightGroup hueGroups) (Light_ID l)")
  case None
  with assms show ?thesis
    by (auto simp: lightExists_None lightGroup_lightExists_iff)
next
  case (Some lg)
  from lightExists_Some [OF Some] have "the_Group lg \<in> set hueGroups"
    and "Itoa (Light_ID l) \<in> set (Group_Lights (the_Group lg))"
    by (auto simp: lightGroup_lightExists_iff)
  with Some show ?thesis
    by (auto simp: assignedGroup_def)
qed

lemma assignedGroup_unassigned:
  assumes "\<forall>g\<in>set hueGroups. Itoa (Light_ID l) \<notin> set (Group_Lights g)"
  shows "assignedGroup (map lightGroup hueGroups) l = ''''"
proof -
  from assms have "lightExists (map lightGroup hueGroups) (Light_ID l) = None"
    by (simp add: lightExists_None lightGroup_lightExists_iff)
  then show ?thesis by (simp add: assignedGroup_def)
qed

lemma assignedGroup_first:
  assumes "\<forall>g'\<in>set pre. Itoa (Light_ID l) \<notin> set (Group_Lights g')"
    and "Itoa (Light_ID l) \<in> set (Group_Lights g)"
  shows "assignedGroup (map lightGroup (pre @ g # post)) l = Group_Name g"
proof -
  have "lightExists (map lightGroup pre @ lightGroup g # map lightGroup post) (Light_ID l)
          = Some (lightGroup g)"
    using assms by (intro lightExists_first) (auto simp: lightGroup_lightExists_iff)
  then show ?thesis by (simp add: assignedGroup_def)
qed

text \<open>Evaluating the lookup on the sample snapshot.\<close>

lemmas sample_defs =
  sample_lights_def group_A_def downstairs_def sample_sensors_def sample_new_def

lemmas lookup_defs =
  assignedGroup_def lightGroup_lightExists_def Itoa_def FormatUint.simps digit_def

section \<open>Properties of the Observation Recorder\<close>

text \<open>
  C3. An empty batch yields exactly one observation, of value 0. For lights, light
  brightness, groups and sensors it carries no label at all. For an empty new-light batch
  it carries the batch's \<open>lastScan\<close> and nothing else, so none of the labels that
  identify an entity.
\<close>

theorem empty_batch_one_zero_observation:
  "lightObserver [] groups ctx res = res @ [\<lparr>obs_value = 0, obs_labels = []\<rparr>]
   \<and> lightBrightnessObserver [] groups ctx res = res @ [\<lparr>obs_value = 0, obs_labels = []\<rparr>]
   \<and> groupObserver [] ctx res = res @ [\<lparr>obs_value = 0, obs_labels = []\<rparr>]
   \<and> sensorObserver [] ctx res = res @ [\<lparr>obs_value = 0, obs_labels = []\<rparr>]
   \<and> newLightObserver (v\<lparr>NewLight_Lights := []\<rparr>) ctx res =
       res @ [\<lparr>obs_value = 0, obs_labels = [(''lastScan'', AString (LastScan v))]\<rparr>]
   \<and> fst ` set (obs_labels (last (newLightObserver (v\<lparr>NewLight_Lights := []\<rparr>) ctx res)))
         \<inter> set entity_labels = {}"
  by (simp add: lightObserver_eq lightBrightnessObserver_eq groupObserver_eq sensorObserver_eq
      newLightObserver_eq entity_labels_def)

text \<open>
  C6. A batch of \<open>N > 0\<close> entities yields exactly \<open>N\<close> observations, the \<open>i\<close>-th
  made from the \<open>i\<close>-th entity, whatever identifiers repeat. A light's observation
  carries its identifier under \<open>id\<close> and its on/off state under \<open>on\<close>; in the
  family \<open>light\<close> the value is 1, in \<open>light_brightness\<close> it is the brightness,
  between 0 and 255. Groups, sensors and new lights are recorded the same way with
  their own labels.
\<close>

theorem nonempty_batch_one_observation_each:
  "(lights \<noteq> [] \<longrightarrow>
      lightObserver lights groups ctx res =
        res @ map (\<lambda>l. \<lparr>obs_value = 1, obs_labels =
          [(''on'', ABool (On (Light_State l))), (''id'', AInt (Light_ID l)),
           (''group'', AString (assignedGroup groups l))]\<rparr>) lights
      \<and> lightBrightnessObserver lights groups ctx res =
        res @ map (\<lambda>l. \<lparr>obs_value = uint (Bri (Light_State l)), obs_labels =
          [(''on'', ABool (On (Light_State l))), (''id'', AInt (Light_ID l)),
           (''group'', AString (assignedGroup groups l))]\<rparr>) lights
      \<and> length (lightObserver lights groups ctx res) = length res + length lights
      \<and> length (lightBrightnessObserver lights groups ctx res) = length res + length lights)
   \<and> (i < length lights \<longrightarrow>
      label ''id'' (lightObserver lights groups ctx res ! (length res + i))
        = Some (AInt (Light_ID (lights ! i)))
      \<and> label ''on'' (lightObserver lights groups ctx res ! (length res + i))
        = Some (ABool (On (Light_State (lights ! i))))
      \<and> obs_value (lightObserver lights groups ctx res ! (length res + i)) = 1
      \<and> label ''id'' (lightBrightnessObserver lights groups ctx res ! (length res + i))
        = Some (AInt (Light_ID (lights ! i)))
      \<and> label ''on'' (lightBrightnessObserver lights groups ctx res ! (length res + i))
        = Some (ABool (On (Light_State (lights ! i))))
      \<and> obs_value (lightBrightnessObserver lights groups ctx res ! (length res + i))
        = uint (Bri (Light_State (lights ! i)))
      \<and> 0 \<le> obs_value (lightBrightnessObserver lights groups ctx res ! (length res + i))
      \<and> obs_value (lightBrightnessObserver lights groups ctx res ! (length res + i)) \<le> 255)
   \<and> (hueGroups \<noteq> [] \<longrightarrow>
      groupObserver hueGroups ctx res =
        res @ map (\<lambda>g. \<lparr>obs_value = 1, obs_labels =
          [(''on'', ABool (On (Group_State g))), (''id'', AInt (Group_ID g)),
           (''bri'', AInt (uint (Bri (Group_State g)))),
           (''name'', AString (Group_Name g))]\<rparr>) hueGroups)
   \<and> (sensors \<noteq> [] \<longrightarrow>
      sensorObserver sensors ctx res =
        res @ map (\<lambda>s. \<lparr>obs_value = 1, obs_labels =
          [(''type'', AString (Sensor_Type s)), (''id'', AInt (Sensor_ID s))]\<rparr>) sensors)
   \<and> (NewLight_Lights v \<noteq> [] \<longrightarrow>
      newLightObserver v ctx res =
        res @ map (\<lambda>l. \<lparr>obs_value = 1, obs_labels =
          [(''name'', AString l), (''lastScan'', AString (LastScan v))]\<rparr>) (NewLight_Lights v))"
proof -
  have "uint (Bri (Light_State (lights ! i))) \<le> 255"
    using uint_lt2p [of "Bri (Light_State (lights ! i))"] by simp
  then show ?thesis
    by (simp add: lightObserver_eq [of _ _ _ res] lightBrightnessObserver_eq [of _ _ _ res]
        groupObserver_eq sensorObserver_eq newLightObserver_eq
        lightObserver_nth lightBrightnessObserver_nth label_def)
qed

theorem nonempty_batch_witness:
  "lightObserver (sample_lights @ sample_lights) [] Background [] =
     [\<lparr>obs_value = 1, obs_labels = [(''on'', ABool True), (''id'', AInt 1), (''group'', AString '''')]\<rparr>,
      \<lparr>obs_value = 1, obs_labels = [(''on'', ABool False), (''id'', AInt 2), (''group'', AString '''')]\<rparr>,
      \<lparr>obs_value = 1, obs_labels = [(''on'', ABool True), (''id'', AInt 3), (''group'', AString '''')]\<rparr>,
      \<lparr>obs_value = 1, obs_labels = [(''on'', ABool True), (''id'', AInt 1), (''group'', AString '''')]\<rparr>,
      \<lparr>obs_value = 1, obs_labels = [(''on'', ABool False), (''id'', AInt 2), (''group'', AString '''')]\<rparr>,
      \<lparr>obs_value = 1, obs_labels = [(''on'', ABool True), (''id'', AInt 3), (''group'', AString '''')]\<rparr>]
   \<and> map obs_value (lightBrightnessObserver (sample_lights @ sample_lights) [] Background [])
       = [254, 0, 77, 254, 0, 77]
   \<and> label ''id'' (lightBrightnessObserver (sample_lights @ sample_lights) [] Background [] ! 3)
       = Some (AInt 1)
   \<and> length (groupObserver [group_A, downstairs] Background []) = 2
   \<and> length (sensorObserver sample_sensors Background []) = 1
   \<and> newLightObserver sample_new Background [] =
       [\<lparr>obs_value = 1, obs_labels =
          [(''name'', AString ''Hue Lamp 7''), (''lastScan'', AString ''2021-05-01T10:00:00'')]\<rparr>]"
proof -
  have ne: "sample_lights @ sample_lights \<noteq> []" "(3::nat) < length (sample_lights @ sample_lights)"
    "[group_A, downstairs] \<noteq> []" "sample_sensors \<noteq> []" "NewLight_Lights sample_new \<noteq> []"
    by (simp_all add: sample_defs)
  note t = nonempty_batch_one_observation_each
    [of "sample_lights @ sample_lights" "[]" Background "[]" 3 "[group_A, downstairs]"
        sample_sensors sample_new]
  from t ne have
    "lightObserver (sample_lights @ sample_lights) [] Background [] =
        [] @ map (\<lambda>l. \<lparr>obs_value = 1, obs_labels =
          [(''on'', ABool (On (Light_State l))), (''id'', AInt (Light_ID l)),
           (''group'', AString (assignedGroup [] l))]\<rparr>) (sample_lights @ sample_lights)"
    and "lightBrightnessObserver (sample_lights @ sample_lights) [] Background [] =
        [] @ map (\<lambda>l. \<lparr>obs_value = uint (Bri (Light_State l)), obs_labels =
          [(''on'', ABool (On (Light_State l))), (''id'', AInt (Light_ID l)),
           (''group'', AString (assignedGroup [] l))]\<rparr>) (sample_lights @ sample_lights)"
    and "groupObserver [group_A, downstairs] Background [] =
        [] @ map (\<lambda>g. \<lparr>obs_value = 1, obs_labels =
          [(''on'', ABool (On (Group_State g))), (''id'', AInt (Group_ID g)),
           (''bri'', AInt (uint (Bri (Group_State g)))),
           (''name'', AString (Group_Name g))]\<rparr>) [group_A, downstairs]"
    and "sensorObserver sample_sensors Background [] =
        [] @ map (\<lambda>s. \<lparr>obs_value = 1, obs_labels =
          [(''type'', AString (Sensor_Type s)), (''id'', AInt (Sensor_ID s))]\<rparr>) sample_sensors"
    and "newLightObserver sample_new Background [] =
        [] @ map (\<lambda>l. \<lparr>obs_value = 1, obs_labels =
          [(''name'', AString l), (''lastScan'', AString (LastScan sample_new))]\<rparr>)
            (NewLight_Lights sample_new)"
    by blast+
  then show ?thesis
    by (simp add: sample_defs assignedGroup_def label_def)
qed

text \<open>
  C7. The observation of a light whose identifier (in decimal) is on the membership list
  of some fetched group carries, under \<open>group\<close>, the name of a fetched group that
  holds it; the observation of a light on no group's list carries the empty string.
  Both metric families of the lights job agree.
\<close>

theorem group_label_of_light:
  assumes "i < length lights"
  shows "((\<exists>g\<in>set hueGroups. Itoa (Light_ID (lights ! i)) \<in> set (Group_Lights g)) \<longrightarrow>
            (\<exists>g\<in>set hueGroups. Itoa (Light_ID (lights ! i)) \<in> set (Group_Lights g)
               \<and> label ''group'' (lightObserver lights (map lightGroup hueGroups) ctx res ! (length res + i))
                    = Some (AString (Group_Name g))
               \<and> label ''group'' (lightBrightnessObserver lights (map lightGroup hueGroups) ctx res ! (length res + i))
                    = Some (AString (Group_Name g))))
       \<and> ((\<forall>g\<in>set hueGroups. Itoa (Light_ID (lights ! i)) \<notin> set (Group_Lights g)) \<longrightarrow>
            label ''group'' (lightObserver lights (map lightGroup hueGroups) ctx res ! (length res + i))
              = Some (AString '''')
            \<and> label ''group'' (lightBrightnessObserver lights (map lightGroup hueGroups) ctx res ! (length res + i))
              = Some (AString ''''))"
proof (intro conjI impI)
  assume "\<exists>g\<in>set hueGroups. Itoa (Light_ID (lights ! i)) \<in> set (Group_Lights g)"
  from assignedGroup_member [OF this] obtain g where "g \<in> set hueGroups"
    and "Itoa (Light_ID (lights ! i)) \<in> set (Group_Lights g)"
    and "assignedGroup (map lightGroup hueGroups) (lights ! i) = Group_Name g"
    by blast
  with assms show "\<exists>g\<in>set hueGroups. Itoa (Light_ID (lights ! i)) \<in> set (Group_Lights g)
               \<and> label ''group'' (lightObserver lights (map lightGroup hueGroups) ctx res ! (length res + i))
                    = Some (AString (Group_Name g))
               \<and> label ''group'' (lightBrightnessObserver lights (map lightGroup hueGroups) ctx res ! (length res + i))
                    = Some (AString (Group_Name g))"
    by (auto simp: lightObserver_nth lightBrightnessObserver_nth label_def)
next
  assume "\<forall>g\<in>set hueGroups. Itoa (Light_ID (lights ! i)) \<notin> set (Group_Lights g)"
  from assignedGroup_unassigned [OF this] assms
  show "label ''group'' (lightObserver lights (map lightGroup hueGroups) ctx res ! (length res + i))
              = Some (AString '''')"
    and "label ''group'' (lightBrightnessObserver lights (map lightGroup hueGroups) ctx res ! (length res + i))
              = Some (AString '''')"
    by (simp_all add: lightObserver_nth lightBrightnessObserver_nth label_def)
qed

theorem group_label_witness:
  "label ''group'' (lightObserver sample_lights (map lightGroup [group_A]) Background [] ! 0)
     = Some (AString ''Group A'')
   \<and> label ''group'' (lightBrightnessObserver sample_lights (map lightGroup [group_A]) Background [] ! 0)
     = Some (AString ''Group A'')
   \<and> label ''group'' (lightObserver sample_lights (map lightGroup [group_A]) Background [] ! 1)
     = Some (AString '''')
   \<and> label ''group'' (lightBrightnessObserver sample_lights (map lightGroup [group_A]) Background [] ! 1)
     = Some (AString '''')
   \<and> label ''group'' (lightObserver sample_lights (map lightGroup [group_A]) Background [] ! 2)
     = Some (AString '''')"
proof -
  have len: "0 < length sample_lights" "1 < length sample_lights" "2 < length sample_lights"
    by (simp_all add: sample_defs)
  have member: "\<exists>g\<in>set [group_A]. Itoa (Light_ID (sample_lights ! 0)) \<in> set (Group_Lights g)"
    by (simp add: sample_defs lookup_defs)
  have none: "\<forall>g\<in>set [group_A]. Itoa (Light_ID (sample_lights ! 1)) \<notin> set (Group_Lights g)"
    "\<forall>g\<in>set [group_A]. Itoa (Light_ID (sample_lights ! 2)) \<notin> set (Group_Lights g)"
    by (simp_all add: sample_defs lookup_defs)
  from group_label_of_light [OF len(1), of "[group_A]" Background "[]"] member
  have "label ''group'' (lightObserver sample_lights (map lightGroup [group_A]) Background [] ! 0)
          = Some (AString (Group_Name group_A))"
    and "label ''group'' (lightBrightnessObserver sample_lights (map lightGroup [group_A]) Background [] ! 0)
          = Some (AString (Group_Name group_A))"
    by auto
  moreover from group_label_of_light [OF len(2), of "[group_A]" Background "[]"] none(1)
  have "label ''group'' (lightObserver sample_lights (map lightGroup [group_A]) Background [] ! 1)
          = Some (AString '''')"
    and "label ''group'' (lightBrightnessObserver sample_lights (map lightGroup [group_A]) Background [] ! 1)
          = Some (AString '''')"
    by auto
  moreover from group_label_of_light [OF len(3), of "[group_A]" Background "[]"] none(2)
  have "label ''group'' (lightObserver sample_lights (map lightGroup [group_A]) Background [] ! 2)
          = Some (AString '''')"
    by (auto simp: numeral_2_eq_2)
  ultimately show ?thesis by (simp add: group_A_def)
qed

lemma groupObserver_nth:
  assumes "j < length hueGroups"
  shows "groupObserver hueGroups ctx res ! (length res + j) =
     \<lparr>obs_value = 1, obs_labels =
        [(''on'', ABool (On (Group_State (hueGroups ! j)))), (''id'', AInt (Group_ID (hueGroups ! j))),
         (''bri'', AInt (uint (Bri (Group_State (hueGroups ! j))))),
         (''name'', AString (Group_Name (hueGroups ! j)))]\<rparr>"
proof -
  from assms have "hueGroups \<noteq> []" by auto
  with assms show ?thesis
    by (simp add: groupObserver_eq nth_append)
qed

lemma sensorObserver_nth:
  assumes "k < length sensors"
  shows "sensorObserver sensors ctx res ! (length res + k) =
     \<lparr>obs_value = 1, obs_labels =
        [(''type'', AString (Sensor_Type (sensors ! k))), (''id'', AInt (Sensor_ID (sensors ! k)))]\<rparr>"
proof -
  from assms have "sensors \<noteq> []" by auto
  with assms show ?thesis
    by (simp add: sensorObserver_eq nth_append)
qed

lemma newLightObserver_nth:
  assumes "n < length (NewLight_Lights v)"
  shows "newLightObserver v ctx res ! (length res + n) =
     \<lparr>obs_value = 1, obs_labels =
        [(''name'', AString (NewLight_Lights v ! n)), (''lastScan'', AString (LastScan v))]\<rparr>"
proof -
  from assms have "NewLight_Lights v \<noteq> []" by auto
  with assms show ?thesis
    by (simp add: newLightObserver_eq nth_append)
qed

text \<open>
  C8. What an observer appends depends on nothing but the batch (and the groups): not on
  the context it is called with, not on what the result holds already, which it leaves
  in place. Two runs on the same input therefore append the same sequence. For each of
  the five observers the sequence is given in full: the one zero observation for an
  empty batch, and otherwise one observation for each entity in the order of the batch,
  the \<open>i\<close>-th observation being that of the \<open>i\<close>-th entity.
\<close>

theorem recorder_is_function_of_batch:
  "lightObserver lights groups ctx res = res @ lightObserver lights groups ctx' []
   \<and> lightBrightnessObserver lights groups ctx res = res @ lightBrightnessObserver lights groups ctx' []
   \<and> newLightObserver v ctx res = res @ newLightObserver v ctx' []
   \<and> groupObserver hueGroups ctx res = res @ groupObserver hueGroups ctx' []
   \<and> sensorObserver sensors ctx res = res @ sensorObserver sensors ctx' []
   \<and> (i < length lights \<longrightarrow>
        label ''id'' (lightObserver lights groups ctx res ! (length res + i))
          = Some (AInt (Light_ID (lights ! i)))
      \<and> label ''id'' (lightBrightnessObserver lights groups ctx res ! (length res + i))
          = Some (AInt (Light_ID (lights ! i))))
   \<and> lightObserver lights groups ctx res =
       res @ (if lights = [] then [\<lparr>obs_value = 0, obs_labels = []\<rparr>]
              else map (\<lambda>l. \<lparr>obs_value = 1, obs_labels =
                [(''on'', ABool (On (Light_State l))), (''id'', AInt (Light_ID l)),
                 (''group'', AString (assignedGroup groups l))]\<rparr>) lights)
   \<and> lightBrightnessObserver lights groups ctx res =
       res @ (if lights = [] then [\<lparr>obs_value = 0, obs_labels = []\<rparr>]
              else map (\<lambda>l. \<lparr>obs_value = uint (Bri (Light_State l)), obs_labels =
                [(''on'', ABool (On (Light_State l))), (''id'', AInt (Light_ID l)),
                 (''group'', AString (assignedGroup groups l))]\<rparr>) lights)
   \<and> groupObserver hueGroups ctx res =
       res @ (if hueGroups = [] then [\<lparr>obs_value = 0, obs_labels = []\<rparr>]
              else map (\<lambda>g. \<lparr>obs_value = 1, obs_labels =
                [(''on'', ABool (On (Group_State g))), (''id'', AInt (Group_ID g)),
                 (''bri'', AInt (uint (Bri (Group_State g)))),
                 (''name'', AString (Group_Name g))]\<rparr>) hueGroups)
   \<and> sensorObserver sensors ctx res =
       res @ (if sensors = [] then [\<lparr>obs_value = 0, obs_labels = []\<rparr>]
              else map (\<lambda>s. \<lparr>obs_value = 1, obs_labels =
                [(''type'', AString (Sensor_Type s)), (''id'', AInt (Sensor_ID s))]\<rparr>) sensors)
   \<and> newLightObserver v ctx res =
       res @ (if NewLight_Lights v = [] then
                [\<lparr>obs_value = 0, obs_labels = [(''lastScan'', AString (LastScan v))]\<rparr>]
              else map (\<lambda>l. \<lparr>obs_value = 1, obs_labels =
                [(''name'', AString l), (''lastScan'', AString (LastScan v))]\<rparr>)
                  (NewLight_Lights v))
   \<and> (i < length lights \<longrightarrow>
        lightObserver lights groups ctx res ! (length res + i) =
          \<lparr>obs_value = 1, obs_labels =
            [(''on'', ABool (On (Light_State (lights ! i)))), (''id'', AInt (Light_ID (lights ! i))),
             (''group'', AString (assignedGroup groups (lights ! i)))]\<rparr>
      \<and> lightBrightnessObserver lights groups ctx res ! (length res + i) =
          \<lparr>obs_value = uint (Bri (Light_State (lights ! i))), obs_labels =
            [(''on'', ABool (On (Light_State (lights ! i)))), (''id'', AInt (Light_ID (lights ! i))),
             (''group'', AString (assignedGroup groups (lights ! i)))]\<rparr>)
   \<and> (j < length hueGroups \<longrightarrow>
        groupObserver hueGroups ctx res ! (length res + j) =
          \<lparr>obs_value = 1, obs_labels =
            [(''on'', ABool (On (Group_State (hueGroups ! j)))),
             (''id'', AInt (Group_ID (hueGroups ! j))),
             (''bri'', AInt (uint (Bri (Group_State (hueGroups ! j))))),
             (''name'', AString (Group_Name (hueGroups ! j)))]\<rparr>)
   \<and> (k < length sensors \<longrightarrow>
        sensorObserver sensors ctx res ! (length res + k) =
          \<lparr>obs_value = 1, obs_labels =
            [(''type'', AString (Sensor_Type (sensors ! k))),
             (''id'', AInt (Sensor_ID (sensors ! k)))]\<rparr>)
   \<and> (n < length (NewLight_Lights v) \<longrightarrow>
        newLightObserver v ctx res ! (length res + n) =
          \<lparr>obs_value = 1, obs_labels =
            [(''name'', AString (NewLight_Lights v ! n)),
             (''lastScan'', AString (LastScan v))]\<rparr>)"
proof (intro conjI impI)
  show "lightObserver lights groups ctx res = res @ lightObserver lights groups ctx' []"
    by (simp add: lightObserver_eq [of _ _ ctx res] lightObserver_eq [of _ _ ctx' "[]"])
  show "lightBrightnessObserver lights groups ctx res
          = res @ lightBrightnessObserver lights groups ctx' []"
    by (simp add: lightBrightnessObserver_eq [of _ _ ctx res]
        lightBrightnessObserver_eq [of _ _ ctx' "[]"])
  show "newLightObserver v ctx res = res @ newLightObserver v ctx' []"
    by (simp add: newLightObserver_eq [of _ ctx res] newLightObserver_eq [of _ ctx' "[]"])
  show "groupObserver hueGroups ctx res = res @ groupObserver hueGroups ctx' []"
    by (simp add: groupObserver_eq [of _ ctx res] groupObserver_eq [of _ ctx' "[]"])
  show "sensorObserver sensors ctx res = res @ sensorObserver sensors ctx' []"
    by (simp add: sensorObserver_eq [of _ ctx res] sensorObserver_eq [of _ ctx' "[]"])
  show "lightObserver lights groups ctx res =
       res @ (if lights = [] then [\<lparr>obs_value = 0, obs_labels = []\<rparr>]
              else map (\<lambda>l. \<lparr>obs_value = 1, obs_labels =
                [(''on'', ABool (On (Light_State l))), (''id'', AInt (Light_ID l)),
                 (''group'', AString (assignedGroup groups l))]\<rparr>) lights)"
    by (rule lightObserver_eq)
  show "lightBrightnessObserver lights groups ctx res =
       res @ (if lights = [] then [\<lparr>obs_value = 0, obs_labels = []\<rparr>]
              else map (\<lambda>l. \<lparr>obs_value = uint (Bri (Light_State l)), obs_labels =
                [(''on'', ABool (On (Light_State l))), (''id'', AInt (Light_ID l)),
                 (''group'', AString (assignedGroup groups l))]\<rparr>) lights)"
    by (rule lightBrightnessObserver_eq)
  show "groupObserver hueGroups ctx res =
       res @ (if hueGroups = [] then [\<lparr>obs_value = 0, obs_labels = []\<rparr>]
              else map (\<lambda>g. \<lparr>obs_value = 1, obs_labels =
                [(''on'', ABool (On (Group_State g))), (''id'', AInt (Group_ID g)),
                 (''bri'', AInt (uint (Bri (Group_State g)))),
                 (''name'', AString (Group_Name g))]\<rparr>) hueGroups)"
    by (rule groupObserver_eq)
  show "sensorObserver sensors ctx res =
       res @ (if sensors = [] then [\<lparr>obs_value = 0, obs_labels = []\<rparr>]
              else map (\<lambda>s. \<lparr>obs_value = 1, obs_labels =
                [(''type'', AString (Sensor_Type s)), (''id'', AInt (Sensor_ID s))]\<rparr>) sensors)"
    by (rule sensorObserver_eq)
  show "newLightObserver v ctx res =
       res @ (if NewLight_Lights v = [] then
                [\<lparr>obs_value = 0, obs_labels = [(''lastScan'', AString (LastScan v))]\<rparr>]
              else map (\<lambda>l. \<lparr>obs_value = 1, obs_labels =
                [(''name'', AString l), (''lastScan'', AString (LastScan v))]\<rparr>)
                  (NewLight_Lights v))"
    by (rule newLightObserver_eq)
next
  assume "i < length lights"
  then show "label ''id'' (lightObserver lights groups ctx res ! (length res + i))
          = Some (AInt (Light_ID (lights ! i)))"
    and "label ''id'' (lightBrightnessObserver lights groups ctx res ! (length res + i))
          = Some (AInt (Light_ID (lights ! i)))"
    by (simp_all add: lightObserver_nth lightBrightnessObserver_nth label_def)
next
  assume "i < length lights"
  then show "lightObserver lights groups ctx res ! (length res + i) =
          \<lparr>obs_value = 1, obs_labels =
            [(''on'', ABool (On (Light_State (lights ! i)))), (''id'', AInt (Light_ID (lights ! i))),
             (''group'', AString (assignedGroup groups (lights ! i)))]\<rparr>"
    and "lightBrightnessObserver lights groups ctx res ! (length res + i) =
          \<lparr>obs_value = uint (Bri (Light_State (lights ! i))), obs_labels =
            [(''on'', ABool (On (Light_State (lights ! i)))), (''id'', AInt (Light_ID (lights ! i))),
             (''group'', AString (assignedGroup groups (lights ! i)))]\<rparr>"
    by (rule lightObserver_nth, rule lightBrightnessObserver_nth)
next
  assume "j < length hueGroups"
  then show "groupObserver hueGroups ctx res ! (length res + j) =
          \<lparr>obs_value = 1, obs_labels =
            [(''on'', ABool (On (Group_State (hueGroups ! j)))),
             (''id'', AInt (Group_ID (hueGroups ! j))),
             (''bri'', AInt (uint (Bri (Group_State (hueGroups ! j))))),
             (''name'', AString (Group_Name (hueGroups ! j)))]\<rparr>"
    by (rule groupObserver_nth)
next
  assume "k < length sensors"
  then show "sensorObserver sensors ctx res ! (length res + k) =
          \<lparr>obs_value = 1, obs_labels =
            [(''type'', AString (Sensor_Type (sensors ! k))),
             (''id'', AInt (Sensor_ID (sensors ! k)))]\<rparr>"
    by (rule sensorObserver_nth)
next
  assume "n < length (NewLight_Lights v)"
  then show "newLightObserver v ctx res ! (length res + n) =
          \<lparr>obs_value = 1, obs_labels =
            [(''name'', AString (NewLight_Lights v ! n)),
             (''lastScan'', AString (LastScan v))]\<rparr>"
    by (rule newLightObserver_nth)
qed

theorem recorder_is_function_of_batch_witness:
  "lightObserver sample_lights [] (WithSpan Background ''scrape'')
      (lightObserver sample_lights [] Background [])
     = lightObserver sample_lights [] Background [] @ lightObserver sample_lights [] Background []
   \<and> label ''id'' (lightObserver sample_lights [] Background [] ! 2) = Some (AInt 3)
   \<and> label ''id'' (lightBrightnessObserver sample_lights [] Background [] ! 2) = Some (AInt 3)
   \<and> obs_value (lightBrightnessObserver sample_lights [] Background [] ! 2) = 77
   \<and> groupObserver [group_A, downstairs] Background [] ! 1 =
        \<lparr>obs_value = 1, obs_labels =
          [(''on'', ABool True), (''id'', AInt 2), (''bri'', AInt 100),
           (''name'', AString ''Downstairs'')]\<rparr>
   \<and> sensorObserver sample_sensors Background [] ! 0 =
        \<lparr>obs_value = 1, obs_labels = [(''type'', AString ''Daylight''), (''id'', AInt 1)]\<rparr>
   \<and> newLightObserver sample_new Background [] ! 0 =
        \<lparr>obs_value = 1, obs_labels =
          [(''name'', AString ''Hue Lamp 7''), (''lastScan'', AString ''2021-05-01T10:00:00'')]\<rparr>"
proof -
  have len: "2 < length sample_lights" "1 < length [group_A, downstairs]"
    "0 < length sample_sensors" "0 < length (NewLight_Lights sample_new)"
    by (simp_all add: sample_defs)
  note t = recorder_is_function_of_batch [where lights = sample_lights and groups = "[]"
      and ctx' = Background and hueGroups = "[group_A, downstairs]" and sensors = sample_sensors
      and v = sample_new and i = 2 and j = 1 and k = 0 and n = 0]
  note again = t [where ctx = "WithSpan Background ''scrape''"
      and res = "lightObserver sample_lights [] Background []", THEN conjunct1]
  note conjs = t [where ctx = Background and res = "[]"]
  note ids = conjs [THEN conjunct2, THEN conjunct2, THEN conjunct2, THEN conjunct2, THEN conjunct2,
      THEN conjunct1]
  note rest = conjs [THEN conjunct2, THEN conjunct2, THEN conjunct2, THEN conjunct2, THEN conjunct2,
      THEN conjunct2, THEN conjunct2, THEN conjunct2, THEN conjunct2, THEN conjunct2, THEN conjunct2]
  note lights_nth = mp [OF rest [THEN conjunct1] len(1), unfolded list.size add.left_neutral]
  note groups_nth = mp [OF rest [THEN conjunct2, THEN conjunct1] len(2),
      unfolded list.size add.left_neutral]
  note sensors_nth = mp [OF rest [THEN conjunct2, THEN conjunct2, THEN conjunct1] len(3),
      unfolded list.size add.left_neutral]
  note new_nth = mp [OF rest [THEN conjunct2, THEN conjunct2, THEN conjunct2] len(4),
      unfolded list.size add.left_neutral]
  note id_labels = mp [OF ids len(1), unfolded list.size add.left_neutral]
  from again id_labels lights_nth groups_nth sensors_nth new_nth show ?thesis
    by (simp add: sample_defs assignedGroup_def)
qed

text \<open>
  C10. The lookup scans the groups in the order they were fetched and stops at the first
  whose membership list holds the light's identifier. That group's name is the
  \<open>group\<close> label of the light's observations, whatever groups follow it.
\<close>

theorem first_matching_group_names_the_label:
  assumes "i < length lights"
    and "\<forall>g'\<in>set pre. Itoa (Light_ID (lights ! i)) \<notin> set (Group_Lights g')"
    and "Itoa (Light_ID (lights ! i)) \<in> set (Group_Lights g)"
  shows "lightExists (map lightGroup (pre @ g # post)) (Light_ID (lights ! i)) = Some (lightGroup g)
     \<and> label ''group'' (lightObserver lights (map lightGroup (pre @ g # post)) ctx res ! (length res + i))
          = Some (AString (Group_Name g))
     \<and> label ''group'' (lightBrightnessObserver lights (map lightGroup (pre @ g # post)) ctx res ! (length res + i))
          = Some (AString (Group_Name g))"
proof -
  have "lightExists (map lightGroup pre @ lightGroup g # map lightGroup post) (Light_ID (lights ! i))
          = Some (lightGroup g)"
    using assms(2,3) by (intro lightExists_first) (auto simp: lightGroup_lightExists_iff)
  moreover note assignedGroup_first [OF assms(2,3), of post]
  ultimately show ?thesis using assms(1)
    by (simp add: lightObserver_nth lightBrightnessObserver_nth label_def)
qed

theorem first_matching_group_witness:
  "label ''group''
     (lightObserver sample_lights
        (map lightGroup ([downstairs\<lparr>Group_Lights := [''7'']\<rparr>] @ group_A # [downstairs]))
        Background [] ! 0)
     = Some (AString ''Group A'')
   \<and> label ''group''
     (lightObserver sample_lights (map lightGroup ([] @ downstairs # [group_A])) Background [] ! 0)
     = Some (AString ''Downstairs'')"
proof -
  have len: "0 < length sample_lights" by (simp add: sample_defs)
  have before: "\<forall>g'\<in>set [downstairs\<lparr>Group_Lights := [''7'']\<rparr>].
                  Itoa (Light_ID (sample_lights ! 0)) \<notin> set (Group_Lights g')"
    and no_group: "\<forall>g'\<in>set []. Itoa (Light_ID (sample_lights ! 0)) \<notin> set (Group_Lights g')"
    and in_A: "Itoa (Light_ID (sample_lights ! 0)) \<in> set (Group_Lights group_A)"
    and in_D: "Itoa (Light_ID (sample_lights ! 0)) \<in> set (Group_Lights downstairs)"
    by (simp_all add: sample_defs lookup_defs)
  from first_matching_group_names_the_label [OF len before in_A, of "[downstairs]" Background "[]"]
    first_matching_group_names_the_label [OF len no_group in_D, of "[group_A]" Background "[]"]
  show ?thesis by (simp add: group_A_def downstairs_def)
qed

section \<open>Properties of the collection jobs\<close>

lemmas job_defs =
  NewInt64GaugeObserver_def log_Info_def log_Error_def registered_def fresh_def Let_def

text \<open>
  A refused registration ends the job's cycle: the job returns the meter's error wrapped
  in a message, and registers none of the families that come after the refused one.
\<close>

lemma lights_registration_refused:
  assumes "GetGroupsContext env = Inr hueGroups" and "GetLightsContext env = Inr lights"
  shows "(registration env ''light'' = Some err \<longrightarrow>
           fst (lights_Collect env s) = Some (Wrapped ''failed to collect light count'' err)
           \<and> registered (snd (lights_Collect env s)) = registered s)
       \<and> (registration env ''light'' = None \<and> registration env ''light_brightness'' = Some err \<longrightarrow>
           fst (lights_Collect env s) = Some (Wrapped ''failed to collect light brightness'' err)
           \<and> registered (snd (lights_Collect env s)) = registered s @ [''light''])
       \<and> (registration env ''light'' = None \<and> registration env ''light_brightness'' = None
           \<and> GetNewLightsContext env = Inr newLights \<and> registration env ''new_light'' = Some err \<longrightarrow>
           fst (lights_Collect env s) = Some (Wrapped ''failed to collect new light count'' err)
           \<and> registered (snd (lights_Collect env s)) = registered s @ [''light'', ''light_brightness''])"
  using assms by (simp add: lights_Collect_def job_defs)

lemma groups_registration_refused:
  assumes "GetGroupsContext env = Inr hueGroups" and "registration env ''group'' = Some err"
  shows "fst (groups_Collect env s) = Some (Wrapped ''failed to collect group count'' err)
       \<and> registered (snd (groups_Collect env s)) = registered s"
  using assms by (simp add: groups_Collect_def job_defs)

lemma sensors_registration_refused:
  assumes "GetSensorsContext env = Inr sensors" and "registration env ''sensors'' = Some err"
  shows "fst (sensors_Collect env s) = Some (Wrapped ''failed to collect group count'' err)
       \<and> registered (snd (sensors_Collect env s)) = registered s"
  using assms by (simp add: sensors_Collect_def job_defs)

text \<open>
  C2, as stated, at a concrete world: the groups and lights fetches succeed, the meter
  accepts every family, and the new-lights fetch fails. The job returns the fetch error,
  and by then \<open>light\<close> and \<open>light_brightness\<close> are registered.
\<close>

theorem new_lights_fetch_fails_after_registrations:
  "fst (lights_Collect (sample_env\<lparr>GetNewLightsContext := Inl (Upstream ''bridge unreachable'')\<rparr>) fresh)
     = Some (Upstream ''bridge unreachable'')
   \<and> registered (snd (lights_Collect
        (sample_env\<lparr>GetNewLightsContext := Inl (Upstream ''bridge unreachable'')\<rparr>) fresh))
     = [''light'', ''light_brightness'']"
  by (simp add: lights_Collect_def sample_env_def job_defs)

text \<open>
  C2, amended. A failed fetch ends the lights job's cycle with that fetch's error,
  unwrapped. A family is registered only after the fetches whose data it records have
  succeeded: \<open>light\<close> and \<open>light_brightness\<close> after groups and lights,
  \<open>new_light\<close> after all three. A failed groups or lights fetch leaves nothing
  registered; a failed new-lights fetch comes after \<open>light\<close> and
  \<open>light_brightness\<close> were registered, and they stay registered.
\<close>

theorem lights_fetch_failure:
  "(GetGroupsContext env = Inl err \<longrightarrow>
      fst (lights_Collect env s) = Some err \<and> gauges (snd (lights_Collect env s)) = gauges s)
   \<and> (GetGroupsContext env = Inr hueGroups \<and> GetLightsContext env = Inl err \<longrightarrow>
      fst (lights_Collect env s) = Some err \<and> gauges (snd (lights_Collect env s)) = gauges s)
   \<and> (GetGroupsContext env = Inr hueGroups \<and> GetLightsContext env = Inr lights
       \<and> registration env ''light'' = None \<and> registration env ''light_brightness'' = None
       \<and> GetNewLightsContext env = Inl err \<longrightarrow>
      fst (lights_Collect env s) = Some err
      \<and> gauges (snd (lights_Collect env s)) =
          gauges s @ [(''light'', lightObserver lights (map lightGroup hueGroups)),
                      (''light_brightness'', lightBrightnessObserver lights (map lightGroup hueGroups))])
   \<and> (''light'' \<in> set (registered (snd (lights_Collect env fresh))) \<longrightarrow>
      (\<exists>gs ls. GetGroupsContext env = Inr gs \<and> GetLightsContext env = Inr ls))
   \<and> (''light_brightness'' \<in> set (registered (snd (lights_Collect env fresh))) \<longrightarrow>
      (\<exists>gs ls. GetGroupsContext env = Inr gs \<and> GetLightsContext env = Inr ls))
   \<and> (''new_light'' \<in> set (registered (snd (lights_Collect env fresh))) \<longrightarrow>
      (\<exists>gs ls nl. GetGroupsContext env = Inr gs \<and> GetLightsContext env = Inr ls
         \<and> GetNewLightsContext env = Inr nl))"
proof (intro conjI impI)
  assume "GetGroupsContext env = Inl err"
  then show "fst (lights_Collect env s) = Some err" "gauges (snd (lights_Collect env s)) = gauges s"
    by (simp_all add: lights_Collect_def job_defs)
next
  assume "GetGroupsContext env = Inr hueGroups \<and> GetLightsContext env = Inl err"
  then show "fst (lights_Collect env s) = Some err" "gauges (snd (lights_Collect env s)) = gauges s"
    by (simp_all add: lights_Collect_def job_defs)
next
  assume a: "GetGroupsContext env = Inr hueGroups \<and> GetLightsContext env = Inr lights
       \<and> registration env ''light'' = None \<and> registration env ''light_brightness'' = None
       \<and> GetNewLightsContext env = Inl err"
  then show "fst (lights_Collect env s) = Some err"
    by (simp add: lights_Collect_def job_defs)
  from a show "gauges (snd (lights_Collect env s)) =
          gauges s @ [(''light'', lightObserver lights (map lightGroup hueGroups)),
                      (''light_brightness'', lightBrightnessObserver lights (map lightGroup hueGroups))]"
    by (simp add: lights_Collect_def job_defs collected_groups)
next
  assume "''light'' \<in> set (registered (snd (lights_Collect env fresh)))"
  then show "\<exists>gs ls. GetGroupsContext env = Inr gs \<and> GetLightsContext env = Inr ls"
    by (cases "GetGroupsContext env"; cases "GetLightsContext env")
       (simp_all add: lights_Collect_def job_defs)
next
  assume "''light_brightness'' \<in> set (registered (snd (lights_Collect env fresh)))"
  then show "\<exists>gs ls. GetGroupsContext env = Inr gs \<and> GetLightsContext env = Inr ls"
    by (cases "GetGroupsContext env"; cases "GetLightsContext env")
       (simp_all add: lights_Collect_def job_defs)
next
  assume "''new_light'' \<in> set (registered (snd (lights_Collect env fresh)))"
  then show "\<exists>gs ls nl. GetGroupsContext env = Inr gs \<and> GetLightsContext env = Inr ls
         \<and> GetNewLightsContext env = Inr nl"
    by (cases "GetGroupsContext env"; cases "GetLightsContext env"; cases "GetNewLightsContext env";
        cases "registration env ''light''"; cases "registration env ''light_brightness''")
       (simp_all add: lights_Collect_def job_defs)
qed

theorem lights_fetch_failure_witness:
  "fst (lights_Collect (sample_env\<lparr>GetGroupsContext := Inl (Upstream ''no route'')\<rparr>) fresh)
     = Some (Upstream ''no route'')
   \<and> gauges (snd (lights_Collect (sample_env\<lparr>GetGroupsContext := Inl (Upstream ''no route'')\<rparr>) fresh))
     = []
   \<and> fst (lights_Collect (sample_env\<lparr>GetLightsContext := Inl (Upstream ''timeout'')\<rparr>) fresh)
     = Some (Upstream ''timeout'')
   \<and> gauges (snd (lights_Collect (sample_env\<lparr>GetLightsContext := Inl (Upstream ''timeout'')\<rparr>) fresh))
     = []
   \<and> fst (lights_Collect (sample_env\<lparr>GetNewLightsContext := Inl (Upstream ''busy'')\<rparr>) fresh)
     = Some (Upstream ''busy'')
   \<and> gauges (snd (lights_Collect (sample_env\<lparr>GetNewLightsContext := Inl (Upstream ''busy'')\<rparr>) fresh))
     = [(''light'', lightObserver sample_lights (map lightGroup [group_A, downstairs])),
        (''light_brightness'',
         lightBrightnessObserver sample_lights (map lightGroup [group_A, downstairs]))]
   \<and> registered (snd (lights_Collect sample_env fresh)) = [''light'', ''light_brightness'', ''new_light'']
   \<and> (\<exists>gs ls nl. GetGroupsContext sample_env = Inr gs \<and> GetLightsContext sample_env = Inr ls
         \<and> GetNewLightsContext sample_env = Inr nl)"
proof -
  let ?no_groups = "sample_env\<lparr>GetGroupsContext := Inl (Upstream ''no route'')\<rparr>"
  let ?no_lights = "sample_env\<lparr>GetLightsContext := Inl (Upstream ''timeout'')\<rparr>"
  let ?no_new = "sample_env\<lparr>GetNewLightsContext := Inl (Upstream ''busy'')\<rparr>"
  have g: "GetGroupsContext ?no_groups = Inl (Upstream ''no route'')"
    by simp
  have l: "GetGroupsContext ?no_lights = Inr [group_A, downstairs]
           \<and> GetLightsContext ?no_lights = Inl (Upstream ''timeout'')"
    by (simp add: sample_env_def)
  have n: "GetGroupsContext ?no_new = Inr [group_A, downstairs]
           \<and> GetLightsContext ?no_new = Inr sample_lights
           \<and> registration ?no_new ''light'' = None \<and> registration ?no_new ''light_brightness'' = None
           \<and> GetNewLightsContext ?no_new = Inl (Upstream ''busy'')"
    by (simp add: sample_env_def)
  have r: "registered (snd (lights_Collect sample_env fresh)) = [''light'', ''light_brightness'', ''new_light'']"
    by (simp add: lights_Collect_def sample_env_def job_defs)
  then have m: "''light'' \<in> set (registered (snd (lights_Collect sample_env fresh)))"
    "''light_brightness'' \<in> set (registered (snd (lights_Collect sample_env fresh)))"
    "''new_light'' \<in> set (registered (snd (lights_Collect sample_env fresh)))"
    by simp_all
  from lights_fetch_failure [where env = "?no_groups" and err = "Upstream ''no route''" and s = fresh] g
  have "fst (lights_Collect ?no_groups fresh) = Some (Upstream ''no route'')"
    and "gauges (snd (lights_Collect ?no_groups fresh)) = gauges fresh"
    by blast+
  moreover
  from lights_fetch_failure [where env = "?no_lights" and err = "Upstream ''timeout''" and s = fresh
      and hueGroups = "[group_A, downstairs]"] l
  have "fst (lights_Collect ?no_lights fresh) = Some (Upstream ''timeout'')"
    and "gauges (snd (lights_Collect ?no_lights fresh)) = gauges fresh"
    by blast+
  moreover
  from lights_fetch_failure [where env = "?no_new" and err = "Upstream ''busy''" and s = fresh
      and hueGroups = "[group_A, downstairs]" and lights = sample_lights] n
  have "fst (lights_Collect ?no_new fresh) = Some (Upstream ''busy'')"
    and "gauges (snd (lights_Collect ?no_new fresh)) =
          gauges fresh @ [(''light'', lightObserver sample_lights (map lightGroup [group_A, downstairs])),
                      (''light_brightness'',
                       lightBrightnessObserver sample_lights (map lightGroup [group_A, downstairs]))]"
    by blast+
  moreover
  from lights_fetch_failure [where env = sample_env] m
  have "\<exists>gs ls nl. GetGroupsContext sample_env = Inr gs \<and> GetLightsContext sample_env = Inr ls
         \<and> GetNewLightsContext sample_env = Inr nl"
    by blast
  ultimately show ?thesis using r
    by (simp add: fresh_def)
qed

text \<open>
  C4, at a concrete world: the meter refuses the family \<open>sensors\<close>. The sensors job
  returns the refusal wrapped as a failure to collect the group count, the very error
  the groups job returns when the meter refuses the family \<open>group\<close>.
\<close>

theorem sensors_refusal_reported_as_group_count:
  "fst (sensors_Collect
          (sample_env\<lparr>registration := refusing ''sensors'' (Upstream ''duplicate instrument'')\<rparr>) fresh)
     = Some (Wrapped ''failed to collect group count'' (Upstream ''duplicate instrument''))
   \<and> fst (groups_Collect
          (sample_env\<lparr>registration := refusing ''group'' (Upstream ''duplicate instrument'')\<rparr>) fresh)
     = Some (Wrapped ''failed to collect group count'' (Upstream ''duplicate instrument''))
   \<and> map log_msg (logs (snd (sensors_Collect
          (sample_env\<lparr>registration := refusing ''sensors'' (Upstream ''duplicate instrument'')\<rparr>) fresh)))
     = [''collecting sensors'', ''failed to record group count'']"
  by (simp add: sensors_Collect_def groups_Collect_def sample_env_def refusing_def job_defs)

section \<open>Properties of the construction\<close>






























section \<open>Properties of the run loop\<close>

text \<open>
  A job that returns an error has logged it first: the last record of its log is an
  error record that carries the returned error, or the error that the returned one
  wraps.
\<close>

lemma lights_Collect_logs_error:
  assumes "lights_Collect env s = (Some err, s')"
  shows "logs s' \<noteq> [] \<and> log_level (last (logs s')) = ErrorLevel
         \<and> (log_fields (last (logs s')) = [zap_Error err]
            \<or> (\<exists>msg e. err = Wrapped msg e \<and> log_fields (last (logs s')) = [zap_Error e]))"
  using assms
  by (auto simp: lights_Collect_def job_defs split: sum.splits option.splits)

lemma groups_Collect_logs_error:
  assumes "groups_Collect env s = (Some err, s')"
  shows "logs s' \<noteq> [] \<and> log_level (last (logs s')) = ErrorLevel
         \<and> (log_fields (last (logs s')) = [zap_Error err]
            \<or> (\<exists>msg e. err = Wrapped msg e \<and> log_fields (last (logs s')) = [zap_Error e]))"
  using assms
  by (auto simp: groups_Collect_def job_defs split: sum.splits option.splits)

lemma sensors_Collect_logs_error:
  assumes "sensors_Collect env s = (Some err, s')"
  shows "logs s' \<noteq> [] \<and> log_level (last (logs s')) = ErrorLevel
         \<and> (log_fields (last (logs s')) = [zap_Error err]
            \<or> (\<exists>msg e. err = Wrapped msg e \<and> log_fields (last (logs s')) = [zap_Error e]))"
  using assms
  by (auto simp: sensors_Collect_def job_defs split: sum.splits option.splits)

lemma noop_meter_logs_error:
  assumes "\<And>env s err s'. collect env s = (Some err, s') \<Longrightarrow>
      logs s' \<noteq> [] \<and> log_level (last (logs s')) = ErrorLevel
         \<and> (log_fields (last (logs s')) = [zap_Error err]
            \<or> (\<exists>msg e. err = Wrapped msg e \<and> log_fields (last (logs s')) = [zap_Error e]))"
    and "noop_meter collect env s = (Some err, s')"
  shows "logs s' \<noteq> [] \<and> log_level (last (logs s')) = ErrorLevel
         \<and> (log_fields (last (logs s')) = [zap_Error err]
            \<or> (\<exists>msg e. err = Wrapped msg e \<and> log_fields (last (logs s')) = [zap_Error e]))"
proof -
  obtain r s1 where c: "collect (env\<lparr>registration := (\<lambda>name. None)\<rparr>) s = (r, s1)"
    by (cases "collect (env\<lparr>registration := (\<lambda>name. None)\<rparr>) s")
  with assms(2) have "r = Some err" and "s' = s1\<lparr>gauges := gauges s\<rparr>"
    by (simp_all add: noop_meter_def)
  with assms(1) [of "env\<lparr>registration := (\<lambda>name. None)\<rparr>" s err s1] c show ?thesis
    by simp
qed

lemma collected_logs_error:
  assumes "collected job w = (Some err, s')"
  shows "logs s' \<noteq> [] \<and> log_level (last (logs s')) = ErrorLevel
         \<and> (log_fields (last (logs s')) = [zap_Error err]
            \<or> (\<exists>msg e. err = Wrapped msg e \<and> log_fields (last (logs s')) = [zap_Error e]))"
proof (cases job)
  case (lights_job l m h)
  show ?thesis
  proof (cases m)
    case None
    with lights_job assms have "noop_meter lights_Collect (lights_env w) fresh = (Some err, s')"
      by simp
    then show ?thesis
      by (rule noop_meter_logs_error [rotated]) (rule lights_Collect_logs_error)
  next
    case (Some handle)
    with lights_job assms have "lights_Collect (lights_env w) fresh = (Some err, s')"
      by simp
    then show ?thesis
      by (rule lights_Collect_logs_error)
  qed
next
  case (groups_job l m h)
  show ?thesis
  proof (cases m)
    case None
    with groups_job assms have "noop_meter groups_Collect (groups_env w) fresh = (Some err, s')"
      by simp
    then show ?thesis
      by (rule noop_meter_logs_error [rotated]) (rule groups_Collect_logs_error)
  next
    case (Some handle)
    with groups_job assms have "groups_Collect (groups_env w) fresh = (Some err, s')"
      by simp
    then show ?thesis
      by (rule groups_Collect_logs_error)
  qed
next
  case (sensors_job l m h)
  show ?thesis
  proof (cases m)
    case None
    with sensors_job assms have "noop_meter sensors_Collect (sensors_env w) fresh = (Some err, s')"
      by simp
    then show ?thesis
      by (rule noop_meter_logs_error [rotated]) (rule sensors_Collect_logs_error)
  next
    case (Some handle)
    with sensors_job assms have "sensors_Collect (sensors_env w) fresh = (Some err, s')"
      by simp
    then show ?thesis
      by (rule sensors_Collect_logs_error)
  qed
qed

text \<open>Jobs with their logger and bridge client all return; one without ends the process.\<close>

lemma joined_equipped:
  "\<forall>job\<in>set js. equipped job \<Longrightarrow>
   joined (map (\<lambda>job. Collect_job job w) js) = Returns (map (\<lambda>job. collected job w) js)"
  by (induction js) (simp_all add: Collect_job_def)

lemma joined_panics:
  "\<exists>job\<in>set js. \<not> equipped job \<Longrightarrow> joined (map (\<lambda>job. Collect_job job w) js) = Panics"
proof (induction js)
  case Nil
  then show ?case by simp
next
  case (Cons job js)
  show ?case
  proof (cases "equipped job")
    case True
    with Cons.prems have "\<exists>job\<in>set js. \<not> equipped job" by auto
    from Cons.IH [OF this] True show ?thesis
      by (simp add: Collect_job_def)
  next
    case False
    then show ?thesis
      by (simp add: Collect_job_def)
  qed
qed

lemma Run_dies:
  assumes "log g = None \<or> (\<exists>job\<in>set (jobs g). \<not> equipped job)"
  shows "Run g e (w # ws) s = (Died, s)"
proof (cases "log g = None")
  case True
  then show ?thesis by simp
next
  case False
  with assms have "\<exists>job\<in>set (jobs g). \<not> equipped job" by simp
  from joined_panics [OF this] False show ?thesis by simp
qed

lemma Run_step:
  assumes "log g \<noteq> None" and "\<forall>job\<in>set (jobs g). equipped job"
  shows "Run g e (w # ws) s =
     (let outs = map (\<lambda>job. collected job w) (jobs g);
          s1 = s\<lparr>cycles := cycles s @ [outs]\<rparr>;
          s2 = (case Wait (completion w) (map fst outs) of
                  Some err \<Rightarrow>
                    s1\<lparr>run_log := run_log s1 @
                      [\<lparr>log_level = ErrorLevel, log_msg = ''job failed to collect metrics'',
                        log_fields = [zap_Error err]\<rparr>]\<rparr>
                | None \<Rightarrow> s1)
      in case chosen (ready w) of
           ticker_C \<Rightarrow> Run g e ws s2
         | ctx_Done \<Rightarrow>
             (Returned e,
              (case e of
                 Some err \<Rightarrow>
                   s2\<lparr>run_log := run_log s2 @
                     [\<lparr>log_level = ErrorLevel, log_msg = ''context was cancelled'',
                       log_fields = [zap_Error err]\<rparr>]\<rparr>
               | None \<Rightarrow> s2)))"
proof -
  from assms(1) obtain l where "log g = Some l"
    by (cases "log g") simp_all
  then show ?thesis
    by (simp only: Run.simps joined_equipped [OF assms(2)] option.simps if_False outcome.case
        Let_def)
qed

text \<open>
  The run goes through the cycles of the world up to and including the first whose
  \<^verbatim>\<open>select\<close> takes the \<^verbatim>\<open>ctx.Done()\<close> case, and returns there.
\<close>

lemma Run_result:
  assumes "log g \<noteq> None" and "\<forall>job\<in>set (jobs g). equipped job"
  shows "fst (Run g e ws s)
     = (if \<exists>w\<in>set ws. chosen (ready w) = ctx_Done then Returned e else Running)"
proof (induction ws arbitrary: s)
  case Nil
  then show ?case by simp
next
  case (Cons w ws)
  show ?case
    by (cases "chosen (ready w)")
       (simp_all add: Run_step [OF assms] Cons.IH Let_def del: Run.simps)
qed

lemma Run_cycles:
  assumes "log g \<noteq> None" and "\<forall>job\<in>set (jobs g). equipped job"
  shows "cycles (snd (Run g e ws s)) =
     cycles s @ map (\<lambda>w. map (\<lambda>job. collected job w) (jobs g))
       (takeWhile (\<lambda>w. chosen (ready w) = ticker_C) ws
        @ take 1 (dropWhile (\<lambda>w. chosen (ready w) = ticker_C) ws))"
proof (induction ws arbitrary: s)
  case Nil
  then show ?case by simp
next
  case (Cons w ws)
  show ?case
    by (cases "chosen (ready w)")
       (auto simp: Run_step [OF assms] Cons.IH Let_def simp del: Run.simps split: option.splits)
qed

lemma Run_log_mono:
  assumes "log g \<noteq> None" and "\<forall>job\<in>set (jobs g). equipped job"
  shows "x \<in> set (run_log s) \<Longrightarrow> x \<in> set (run_log (snd (Run g e ws s)))"
proof (induction ws arbitrary: s)
  case Nil
  then show ?case by simp
next
  case (Cons w ws)
  then show ?case
    by (cases "chosen (ready w)")
       (auto simp: Run_step [OF assms] Let_def simp del: Run.simps split: option.splits)
qed

lemma Run_logs_failure:
  assumes "log g \<noteq> None" and "\<forall>job\<in>set (jobs g). equipped job"
  shows "k < length ws \<Longrightarrow> \<forall>j<k. chosen (ready (ws ! j)) = ticker_C \<Longrightarrow>
   Wait (completion (ws ! k)) (map (\<lambda>job. fst (collected job (ws ! k))) (jobs g)) = Some err \<Longrightarrow>
   \<lparr>log_level = ErrorLevel, log_msg = ''job failed to collect metrics'',
     log_fields = [zap_Error err]\<rparr> \<in> set (run_log (snd (Run g e ws s)))"
proof (induction ws arbitrary: s k)
  case Nil
  then show ?case by simp
next
  case (Cons w ws)
  show ?case
  proof (cases k)
    case 0
    with Cons.prems(3)
    have w: "Wait (completion w) (map (\<lambda>job. fst (collected job w)) (jobs g)) = Some err"
      by simp
    show ?thesis
      by (cases "chosen (ready w)")
         (auto simp: Run_step [OF assms] w Let_def comp_def simp del: Run.simps
            intro!: Run_log_mono [OF assms] split: option.splits)
  next
    case (Suc k')
    from Cons.prems(2) Suc have tick: "chosen (ready w) = ticker_C" by auto
    from Cons.prems Suc have "k' < length ws" and "\<forall>j<k'. chosen (ready (ws ! j)) = ticker_C"
      and "Wait (completion (ws ! k')) (map (\<lambda>job. fst (collected job (ws ! k'))) (jobs g)) = Some err"
      by auto
    from Cons.IH [OF this] tick show ?thesis
      by (simp add: Run_step [OF assms] Let_def del: Run.simps)
  qed
qed

lemma first_error_None:
  "first_error order results = None \<longleftrightarrow> (\<forall>i\<in>set order. i < length results \<longrightarrow> results ! i = None)"
  by (induction order) (auto split: option.splits)

lemma first_error_returned:
  "first_error order results = Some e \<Longrightarrow> \<exists>j\<in>set order. j < length results \<and> results ! j = Some e"
  by (induction order) (auto split: option.splits if_splits)

lemma first_error_first:
  assumes "\<forall>j\<in>set pre. j < length results \<longrightarrow> results ! j = None"
    and "i < length results" and "results ! i = Some err"
  shows "first_error (pre @ i # post) results = Some err"
  using assms by (induction pre) simp_all

lemma reached_cycle:
  "k < length ws \<Longrightarrow> \<forall>j<k. P (ws ! j) \<Longrightarrow>
   (takeWhile P ws @ take 1 (dropWhile P ws)) ! k = ws ! k
   \<and> k < length (takeWhile P ws @ take 1 (dropWhile P ws))"
proof (induction ws arbitrary: k)
  case Nil
  then show ?case by simp
next
  case (Cons w ws)
  show ?case
  proof (cases k)
    case 0
    then show ?thesis by simp
  next
    case (Suc k')
    with Cons.prems have "P w" by auto
    from Cons.prems Suc have "k' < length ws" "\<forall>j<k'. P (ws ! j)" by auto
    from Cons.IH [OF this] \<open>P w\<close> Suc show ?thesis by simp
  qed
qed

lemma Run_cycle_nth:
  assumes "log g \<noteq> None" and "\<forall>job\<in>set (jobs g). equipped job"
    and "k < length ws" and "\<forall>j<k. chosen (ready (ws ! j)) = ticker_C"
  shows "cycles (snd (Run g e ws s)) ! (length (cycles s) + k)
           = map (\<lambda>job. collected job (ws ! k)) (jobs g)"
proof -
  let ?ex = "takeWhile (\<lambda>w. chosen (ready w) = ticker_C) ws
        @ take 1 (dropWhile (\<lambda>w. chosen (ready w) = ticker_C) ws)"
  from reached_cycle [OF assms(3,4)] have "?ex ! k = ws ! k" and "k < length ?ex"
    by blast+
  then have "map (\<lambda>w. map (\<lambda>job. collected job w) (jobs g)) ?ex ! k
               = map (\<lambda>job. collected job (ws ! k)) (jobs g)"
    by (simp only: nth_map)
  then show ?thesis
    by (simp only: Run_cycles [OF assms(1,2)] nth_append_length_plus)
qed

text \<open>Evaluating the jobs on the sample world.\<close>

lemmas world_defs =
  sample_world_def outage_def sample_cycle_def sample_gatherer_def sample_env_def idle_def

lemmas collect_defs =
  lights_Collect_def groups_Collect_def sensors_Collect_def job_defs

lemma Run_logs_first_error:
  assumes "log g \<noteq> None" and "\<forall>job\<in>set (jobs g). equipped job"
    and "k < length ws" and "\<forall>j<k. chosen (ready (ws ! j)) = ticker_C"
    and "i < length (jobs g)" and "fst (collected (jobs g ! i) (ws ! k)) = Some err"
    and "i \<in> set (completion (ws ! k))"
  shows "\<exists>e. Wait (completion (ws ! k)) (map (\<lambda>job. fst (collected job (ws ! k))) (jobs g)) = Some e
           \<and> (\<exists>j<length (jobs g). fst (collected (jobs g ! j) (ws ! k)) = Some e)
           \<and> \<lparr>log_level = ErrorLevel, log_msg = ''job failed to collect metrics'',
               log_fields = [zap_Error e]\<rparr> \<in> set (run_log (snd (Run g ctx_Err ws s)))"
proof -
  let ?results = "map (\<lambda>job. fst (collected job (ws ! k))) (jobs g)"
  from assms(5,6) have in_range: "i < length ?results" and some: "?results ! i = Some err"
    by simp_all
  have "first_error (completion (ws ! k)) ?results \<noteq> None"
  proof
    assume "first_error (completion (ws ! k)) ?results = None"
    then have "\<forall>i\<in>set (completion (ws ! k)). i < length ?results \<longrightarrow> ?results ! i = None"
      by (simp only: first_error_None)
    from bspec [OF this assms(7)] in_range have "?results ! i = None"
      by (rule mp)
    with some show False
      by simp
  qed
  then obtain e where fe: "first_error (completion (ws ! k)) ?results = Some e"
    by auto
  then have w: "Wait (completion (ws ! k)) ?results = Some e"
    by (simp add: Wait_def)
  from first_error_returned [OF fe] obtain j where "j < length ?results" and "?results ! j = Some e"
    by auto
  then have j: "\<exists>j<length (jobs g). fst (collected (jobs g ! j) (ws ! k)) = Some e"
    by (intro exI [of _ j]) simp
  from w j Run_logs_failure [OF assms(1-4) w, of ctx_Err s] show ?thesis
    by (intro exI [of _ e] conjI)
qed

lemma Run_logs_the_first_to_fail:
  assumes "log g \<noteq> None" and "\<forall>job\<in>set (jobs g). equipped job"
    and "k < length ws" and "\<forall>j<k. chosen (ready (ws ! j)) = ticker_C"
    and "i < length (jobs g)" and "fst (collected (jobs g ! i) (ws ! k)) = Some err"
    and "completion (ws ! k) = pre @ i # post"
    and "\<forall>j\<in>set pre. j < length (jobs g) \<longrightarrow> fst (collected (jobs g ! j) (ws ! k)) = None"
  shows "\<lparr>log_level = ErrorLevel, log_msg = ''job failed to collect metrics'',
           log_fields = [zap_Error err]\<rparr> \<in> set (run_log (snd (Run g ctx_Err ws s)))"
proof -
  let ?results = "map (\<lambda>job. fst (collected job (ws ! k))) (jobs g)"
  from assms(8) have "\<forall>j\<in>set pre. j < length ?results \<longrightarrow> ?results ! j = None"
    by simp
  moreover from assms(5,6) have "i < length ?results" and "?results ! i = Some err"
    by simp_all
  ultimately have "first_error (pre @ i # post) ?results = Some err"
    by (rule first_error_first)
  with assms(7) have "Wait (completion (ws ! k)) ?results = Some err"
    by (simp add: Wait_def)
  from Run_logs_failure [OF assms(1-4) this] show ?thesis .
qed

text \<open>
  C1, as stated, at a concrete input: the Gatherer that the construction returns for a
  logger alone has no bridge client. In its first cycle the jobs call a nil bridge
  client and the process dies, with the context not done.
\<close>

theorem run_dies_without_a_bridge:
  "NewGatherer [WithLogger (Some (Logger ''zap''))] = Returns (Inr bare_gatherer)
   \<and> ready (sample_cycle TickerOnly) = TickerOnly
   \<and> Run bare_gatherer (Some Canceled) [sample_cycle TickerOnly] idle = (Died, idle)"
  by (simp add: NewGatherer_def valid_def bare_gatherer_def sample_cycle_def Collect_job_def)

text \<open>
  C1, amended. Take a Gatherer with its logger whose jobs have their logger and bridge
  client, as the construction builds them when a bridge configuration is among the
  options. Whether and what \<open>Run\<close> returns is decided by the \<^verbatim>\<open>select\<close> alone:
  it returns, with the context's error, if and only if some cycle's \<^verbatim>\<open>select\<close>
  takes the \<^verbatim>\<open>ctx.Done()\<close> case, which needs the context to be done. No result of
  a job enters into it. Every cycle that follows cycles whose \<^verbatim>\<open>select\<close> took
  the tick launches all the jobs, whatever the jobs of the earlier cycles returned. A
  job that returns an error has logged that error (or the error it wraps) as its last
  record; the run logs the first error of the cycle, which is an error some job of the
  cycle returned, and is this job's error when this job is the first to finish with one.
  A Gatherer without a logger, or with a job without its logger or bridge client, dies
  of a nil pointer in its first cycle.
\<close>

theorem job_errors_never_end_the_run:
  "(log g \<noteq> None \<and> (\<forall>job\<in>set (jobs g). equipped job) \<longrightarrow>
      fst (Run g ctx_Err ws s)
        = (if \<exists>w\<in>set ws. chosen (ready w) = ctx_Done then Returned ctx_Err else Running)
      \<and> (k < length ws \<and> (\<forall>j<k. chosen (ready (ws ! j)) = ticker_C) \<longrightarrow>
           cycles (snd (Run g ctx_Err ws s)) ! (length (cycles s) + k)
             = map (\<lambda>job. collected job (ws ! k)) (jobs g)
           \<and> map (\<lambda>job. Collect_job job (ws ! k)) (jobs g)
             = map Returns (cycles (snd (Run g ctx_Err ws s)) ! (length (cycles s) + k)))
      \<and> (k < length ws \<and> (\<forall>j<k. chosen (ready (ws ! j)) = ticker_C)
          \<and> i < length (jobs g) \<and> collected (jobs g ! i) (ws ! k) = (Some err, js) \<longrightarrow>
           logs js \<noteq> [] \<and> log_level (last (logs js)) = ErrorLevel
           \<and> (log_fields (last (logs js)) = [zap_Error err]
              \<or> (\<exists>msg e. err = Wrapped msg e \<and> log_fields (last (logs js)) = [zap_Error e]))
           \<and> (i \<in> set (completion (ws ! k)) \<longrightarrow>
                (\<exists>e. Wait (completion (ws ! k))
                        (map (\<lambda>job. fst (collected job (ws ! k))) (jobs g)) = Some e
                   \<and> (\<exists>j<length (jobs g). fst (collected (jobs g ! j) (ws ! k)) = Some e)
                   \<and> \<lparr>log_level = ErrorLevel, log_msg = ''job failed to collect metrics'',
                       log_fields = [zap_Error e]\<rparr>
                       \<in> set (run_log (snd (Run g ctx_Err ws s)))))
           \<and> (completion (ws ! k) = pre @ i # post
               \<and> (\<forall>j\<in>set pre. j < length (jobs g) \<longrightarrow>
                     fst (collected (jobs g ! j) (ws ! k)) = None) \<longrightarrow>
                \<lparr>log_level = ErrorLevel, log_msg = ''job failed to collect metrics'',
                  log_fields = [zap_Error err]\<rparr>
                  \<in> set (run_log (snd (Run g ctx_Err ws s))))))
   \<and> (chosen r = ctx_Done \<longrightarrow> r = DoneOnly \<or> r = Both ctx_Done)
   \<and> (log g = None \<or> (\<exists>job\<in>set (jobs g). \<not> equipped job) \<longrightarrow>
        Run g ctx_Err (w # ws') s = (Died, s))"
proof (intro conjI impI)
  assume "log g = None \<or> (\<exists>job\<in>set (jobs g). \<not> equipped job)"
  then show "Run g ctx_Err (w # ws') s = (Died, s)"
    by (rule Run_dies)
next
  assume "chosen r = ctx_Done"
  then show "r = DoneOnly \<or> r = Both ctx_Done"
    by (cases r) simp_all
next
  assume "log g \<noteq> None \<and> (\<forall>job\<in>set (jobs g). equipped job)"
  then have h: "log g \<noteq> None" "\<forall>job\<in>set (jobs g). equipped job"
    by simp_all
  show "fst (Run g ctx_Err ws s)
        = (if \<exists>w\<in>set ws. chosen (ready w) = ctx_Done then Returned ctx_Err else Running)"
    by (rule Run_result [OF h])
  {
    assume "k < length ws \<and> (\<forall>j<k. chosen (ready (ws ! j)) = ticker_C)"
    then have reached: "k < length ws" "\<forall>j<k. chosen (ready (ws ! j)) = ticker_C"
      by simp_all
    show c: "cycles (snd (Run g ctx_Err ws s)) ! (length (cycles s) + k)
             = map (\<lambda>job. collected job (ws ! k)) (jobs g)"
      by (rule Run_cycle_nth [OF h reached])
    from h(2) show "map (\<lambda>job. Collect_job job (ws ! k)) (jobs g)
             = map Returns (cycles (snd (Run g ctx_Err ws s)) ! (length (cycles s) + k))"
      by (simp only: c) (simp add: Collect_job_def)
  }
  {
    assume a: "k < length ws \<and> (\<forall>j<k. chosen (ready (ws ! j)) = ticker_C)
          \<and> i < length (jobs g) \<and> collected (jobs g ! i) (ws ! k) = (Some err, js)"
    then have reached: "k < length ws" "\<forall>j<k. chosen (ready (ws ! j)) = ticker_C"
      and job: "i < length (jobs g)"
      and returned: "collected (jobs g ! i) (ws ! k) = (Some err, js)"
      by simp_all
    from returned have failed: "fst (collected (jobs g ! i) (ws ! k)) = Some err"
      by simp
    note own = collected_logs_error [OF returned]
    from own show "logs js \<noteq> []"
      by (rule conjunct1)
    from own show "log_level (last (logs js)) = ErrorLevel"
      by (rule conjunct2 [THEN conjunct1])
    from own show "log_fields (last (logs js)) = [zap_Error err]
              \<or> (\<exists>msg e. err = Wrapped msg e \<and> log_fields (last (logs js)) = [zap_Error e])"
      by (rule conjunct2 [THEN conjunct2])
    {
      assume "i \<in> set (completion (ws ! k))"
      from Run_logs_first_error [OF h reached job failed this]
      show "\<exists>e. Wait (completion (ws ! k))
                        (map (\<lambda>job. fst (collected job (ws ! k))) (jobs g)) = Some e
                   \<and> (\<exists>j<length (jobs g). fst (collected (jobs g ! j) (ws ! k)) = Some e)
                   \<and> \<lparr>log_level = ErrorLevel, log_msg = ''job failed to collect metrics'',
                       log_fields = [zap_Error e]\<rparr>
                       \<in> set (run_log (snd (Run g ctx_Err ws s)))" .
    }
    {
      assume "completion (ws ! k) = pre @ i # post
               \<and> (\<forall>j\<in>set pre. j < length (jobs g) \<longrightarrow>
                     fst (collected (jobs g ! j) (ws ! k)) = None)"
      then have "completion (ws ! k) = pre @ i # post"
        and "\<forall>j\<in>set pre. j < length (jobs g) \<longrightarrow> fst (collected (jobs g ! j) (ws ! k)) = None"
        by simp_all
      from Run_logs_the_first_to_fail [OF h reached job failed this]
      show "\<lparr>log_level = ErrorLevel, log_msg = ''job failed to collect metrics'',
                  log_fields = [zap_Error err]\<rparr>
                  \<in> set (run_log (snd (Run g ctx_Err ws s)))" .
    }
  }
qed

theorem job_errors_witness:
  "fst (Run sample_gatherer (Some Canceled) sample_world idle) = Returned (Some Canceled)
   \<and> fst (Run sample_gatherer (Some Canceled) [outage, outage] idle) = Running
   \<and> fst (collected (jobs sample_gatherer ! 0) (sample_world ! 0))
       = Some (Upstream ''bridge unreachable'')
   \<and> cycles (snd (Run sample_gatherer (Some Canceled) sample_world idle)) ! 1
       = map (\<lambda>job. collected job (sample_world ! 1)) (jobs sample_gatherer)
   \<and> map (\<lambda>job. Collect_job job (sample_world ! 1)) (jobs sample_gatherer)
       = map Returns (cycles (snd (Run sample_gatherer (Some Canceled) sample_world idle)) ! 1)
   \<and> length (cycles (snd (Run sample_gatherer (Some Canceled) sample_world idle)) ! 1) = 3
   \<and> log_level (last (logs (snd (collected (jobs sample_gatherer ! 0) (sample_world ! 0)))))
       = ErrorLevel
   \<and> log_fields (last (logs (snd (collected (jobs sample_gatherer ! 0) (sample_world ! 0)))))
       = [zap_Error (Upstream ''bridge unreachable'')]
   \<and> Wait (completion (sample_world ! 0))
        (map (\<lambda>job. fst (collected job (sample_world ! 0))) (jobs sample_gatherer))
       = Some (Upstream ''bridge unreachable'')
   \<and> \<lparr>log_level = ErrorLevel, log_msg = ''job failed to collect metrics'',
       log_fields = [zap_Error (Upstream ''bridge unreachable'')]\<rparr>
       \<in> set (run_log (snd (Run sample_gatherer (Some Canceled) sample_world idle)))
   \<and> chosen (ready (sample_world ! 2)) = ctx_Done
   \<and> ready (sample_world ! 2) = DoneOnly
   \<and> Run bare_gatherer (Some Canceled) sample_world idle = (Died, idle)"
proof -
  let ?js = "snd (collected (jobs sample_gatherer ! 0) (sample_world ! 0))"
  let ?err = "Upstream ''bridge unreachable''"
  have h: "log sample_gatherer \<noteq> None \<and> (\<forall>job\<in>set (jobs sample_gatherer). equipped job)"
    by (simp add: sample_gatherer_def)
  have finishes: "\<exists>w\<in>set sample_world. chosen (ready w) = ctx_Done"
    and never: "\<not> (\<exists>w\<in>set [outage, outage]. chosen (ready w) = ctx_Done)"
    by (simp_all add: sample_world_def outage_def sample_cycle_def)
  have reached: "1 < length sample_world \<and> (\<forall>j<1. chosen (ready (sample_world ! j)) = ticker_C)"
    by (simp add: sample_world_def outage_def sample_cycle_def)
  have failed: "fst (collected (jobs sample_gatherer ! 0) (sample_world ! 0)) = Some ?err"
    by (simp add: world_defs collect_defs)
  then have returned: "collected (jobs sample_gatherer ! 0) (sample_world ! 0) = (Some ?err, ?js)"
    by (simp only: prod_eq_iff fst_conv snd_conv simp_thms)
  have first: "0 < length sample_world \<and> (\<forall>j<0. chosen (ready (sample_world ! j)) = ticker_C)
       \<and> 0 < length (jobs sample_gatherer)
       \<and> collected (jobs sample_gatherer ! 0) (sample_world ! 0) = (Some ?err, ?js)"
    using returned by (simp add: sample_world_def sample_gatherer_def)
  have finished: "0 \<in> set (completion (sample_world ! 0))"
    by (simp add: sample_world_def outage_def sample_cycle_def)
  have sensors_fine: "fst (collected (jobs sample_gatherer ! 2) (sample_world ! 0)) = None"
    by (simp add: world_defs collect_defs)
  have order: "completion (sample_world ! 0) = [2] @ 0 # [1]
       \<and> (\<forall>j\<in>set [2]. j < length (jobs sample_gatherer) \<longrightarrow>
             fst (collected (jobs sample_gatherer ! j) (sample_world ! 0)) = None)"
    using sensors_fine by (simp add: sample_world_def outage_def sample_cycle_def)
  have last_done: "chosen (ready (sample_world ! 2)) = ctx_Done"
    by (simp add: sample_world_def sample_cycle_def)
  have bare: "log bare_gatherer = None \<or> (\<exists>job\<in>set (jobs bare_gatherer). \<not> equipped job)"
    by (simp add: bare_gatherer_def)
  note t = job_errors_never_end_the_run [where g = sample_gatherer and ctx_Err = "Some Canceled"
      and s = idle]
  note result = mp [OF t [where ws = sample_world, THEN conjunct1] h, THEN conjunct1]
  note running = mp [OF t [where ws = "[outage, outage]", THEN conjunct1] h, THEN conjunct1]
  note cycle = mp [OF mp [OF t [where ws = sample_world and k = 1, THEN conjunct1] h,
      THEN conjunct2, THEN conjunct1] reached]
  note job = mp [OF mp [OF t [where ws = sample_world and k = 0 and i = 0 and err = ?err
      and js = ?js and pre = "[2]" and post = "[1]", THEN conjunct1] h,
      THEN conjunct2, THEN conjunct2] first]
  note own_level = job [THEN conjunct2, THEN conjunct1]
  note own_fields = job [THEN conjunct2, THEN conjunct2, THEN conjunct1]
  note some_error = mp [OF job [THEN conjunct2, THEN conjunct2, THEN conjunct2, THEN conjunct1]
      finished]
  note this_error = mp [OF job [THEN conjunct2, THEN conjunct2, THEN conjunct2, THEN conjunct2]
      order]
  note only_done = mp [OF t [where r = "ready (sample_world ! 2)", THEN conjunct2, THEN conjunct1]
      last_done]
  note dies = mp [OF job_errors_never_end_the_run [where g = bare_gatherer
      and ctx_Err = "Some Canceled" and s = idle and w = outage
      and ws' = "[sample_cycle TickerOnly, sample_cycle DoneOnly]",
      THEN conjunct2, THEN conjunct2] bare]
  from result finishes
  have r1: "fst (Run sample_gatherer (Some Canceled) sample_world idle) = Returned (Some Canceled)"
    by (simp only: if_True)
  from running never
  have r2: "fst (Run sample_gatherer (Some Canceled) [outage, outage] idle) = Running"
    by (simp only: if_False)
  from cycle
  have r3: "cycles (snd (Run sample_gatherer (Some Canceled) sample_world idle)) ! 1
       = map (\<lambda>job. collected job (sample_world ! 1)) (jobs sample_gatherer)"
    and r4: "map (\<lambda>job. Collect_job job (sample_world ! 1)) (jobs sample_gatherer)
       = map Returns (cycles (snd (Run sample_gatherer (Some Canceled) sample_world idle)) ! 1)"
    by (simp_all add: idle_def del: Run.simps)
  have r5: "length (cycles (snd (Run sample_gatherer (Some Canceled) sample_world idle)) ! 1) = 3"
    by (simp only: r3) (simp add: sample_gatherer_def)
  from own_fields have r6: "log_fields (last (logs ?js)) = [zap_Error ?err]"
    by simp
  from some_error obtain e
    where "Wait (completion (sample_world ! 0))
             (map (\<lambda>job. fst (collected job (sample_world ! 0))) (jobs sample_gatherer)) = Some e"
    by (elim exE conjE)
  moreover have "Wait (completion (sample_world ! 0))
             (map (\<lambda>job. fst (collected job (sample_world ! 0))) (jobs sample_gatherer))
           = Some ?err"
    by (simp add: world_defs collect_defs Wait_def)
  ultimately have r7: "Wait (completion (sample_world ! 0))
             (map (\<lambda>job. fst (collected job (sample_world ! 0))) (jobs sample_gatherer))
           = Some ?err"
    by simp
  from only_done have r8: "ready (sample_world ! 2) = DoneOnly"
    by (simp add: sample_world_def sample_cycle_def)
  from dies have r9: "Run bare_gatherer (Some Canceled) sample_world idle = (Died, idle)"
    by (simp only: sample_world_def)
  from r1 r2 failed r3 r4 r5 own_level r6 r7 this_error last_done r8 r9 show ?thesis
    by (simp only: simp_thms)
qed

text \<open>
  C9, as stated, at a concrete world: the context is done at both cycles' ends, a tick is
  pending at the first, and the runtime picks the tick there. The run goes through two
  full cycles before it returns the context's error.
\<close>

theorem two_cycles_with_a_done_context:
  "ready (sample_cycle (Both ticker_C)) \<noteq> TickerOnly
   \<and> ready (sample_cycle DoneOnly) \<noteq> TickerOnly
   \<and> fst (Run sample_gatherer (Some Canceled) [sample_cycle (Both ticker_C), sample_cycle DoneOnly] idle)
       = Returned (Some Canceled)
   \<and> length (cycles (snd (Run sample_gatherer (Some Canceled)
               [sample_cycle (Both ticker_C), sample_cycle DoneOnly] idle))) = 2"
proof -
  have h: "log sample_gatherer \<noteq> None" "\<forall>job\<in>set (jobs sample_gatherer). equipped job"
    by (simp_all add: sample_gatherer_def)
  show ?thesis
    by (simp add: Run_result [OF h] Run_cycles [OF h] sample_cycle_def idle_def del: Run.simps)
qed

text \<open>
  C9, amended. Take a Gatherer with its logger whose jobs have their logger and bridge
  client. \<open>Run\<close> looks at the context only in the \<^verbatim>\<open>select\<close> after the jobs:
  called with a context that is done, it still launches all the jobs and waits for
  them, so the first cycle is always gone through. It returns the context's error
  after exactly that one cycle when the first \<^verbatim>\<open>select\<close> takes the
  \<^verbatim>\<open>ctx.Done()\<close> case, as it must when no tick is pending. When a tick is pending
  too and the runtime picks it, a further cycle follows. A Gatherer without a logger,
  or with a job without its logger or bridge client, returns nothing, whatever the
  context: the process dies in the first cycle.
\<close>

theorem done_context_still_runs_a_cycle:
  "(log g \<noteq> None \<and> (\<forall>job\<in>set (jobs g). equipped job) \<longrightarrow>
      cycles (snd (Run g ctx_Err (w # ws) idle)) ! 0 = map (\<lambda>job. collected job w) (jobs g)
      \<and> map (\<lambda>job. Collect_job job w) (jobs g)
          = map Returns (cycles (snd (Run g ctx_Err (w # ws) idle)) ! 0)
      \<and> (chosen (ready w) = ctx_Done \<longrightarrow>
           fst (Run g ctx_Err (w # ws) idle) = Returned ctx_Err
           \<and> cycles (snd (Run g ctx_Err (w # ws) idle)) = [map (\<lambda>job. collected job w) (jobs g)])
      \<and> (ready w = DoneOnly \<longrightarrow>
           fst (Run g ctx_Err (w # ws) idle) = Returned ctx_Err
           \<and> cycles (snd (Run g ctx_Err (w # ws) idle)) = [map (\<lambda>job. collected job w) (jobs g)])
      \<and> (ready w = Both ticker_C \<longrightarrow>
           cycles (snd (Run g ctx_Err (w # w' # ws) idle))
             = map (\<lambda>job. collected job w) (jobs g) # cycles (snd (Run g ctx_Err (w' # ws) idle))
           \<and> cycles (snd (Run g ctx_Err (w # w' # ws) idle)) ! 1
             = map (\<lambda>job. collected job w') (jobs g)))
   \<and> (log g = None \<or> (\<exists>job\<in>set (jobs g). \<not> equipped job) \<longrightarrow>
        Run g ctx_Err (w # ws) idle = (Died, idle))"
proof (intro conjI impI)
  assume "log g = None \<or> (\<exists>job\<in>set (jobs g). \<not> equipped job)"
  then show "Run g ctx_Err (w # ws) idle = (Died, idle)"
    by (rule Run_dies)
next
  assume "log g \<noteq> None \<and> (\<forall>job\<in>set (jobs g). equipped job)"
  then have h: "log g \<noteq> None" "\<forall>job\<in>set (jobs g). equipped job"
    by simp_all
  show c: "cycles (snd (Run g ctx_Err (w # ws) idle)) ! 0 = map (\<lambda>job. collected job w) (jobs g)"
    using Run_cycle_nth [OF h, of 0 "w # ws" ctx_Err idle] by (simp add: idle_def)
  from h(2) show "map (\<lambda>job. Collect_job job w) (jobs g)
          = map Returns (cycles (snd (Run g ctx_Err (w # ws) idle)) ! 0)"
    by (simp only: c) (simp add: Collect_job_def)
  {
    assume "chosen (ready w) = ctx_Done"
    then show "fst (Run g ctx_Err (w # ws) idle) = Returned ctx_Err"
      and "cycles (snd (Run g ctx_Err (w # ws) idle)) = [map (\<lambda>job. collected job w) (jobs g)]"
      by (simp_all add: Run_result [OF h] Run_cycles [OF h] idle_def del: Run.simps)
  }
  {
    assume "ready w = DoneOnly"
    then show "fst (Run g ctx_Err (w # ws) idle) = Returned ctx_Err"
      and "cycles (snd (Run g ctx_Err (w # ws) idle)) = [map (\<lambda>job. collected job w) (jobs g)]"
      by (simp_all add: Run_result [OF h] Run_cycles [OF h] idle_def del: Run.simps)
  }
  {
    assume "ready w = Both ticker_C"
    then show "cycles (snd (Run g ctx_Err (w # w' # ws) idle))
          = map (\<lambda>job. collected job w) (jobs g) # cycles (snd (Run g ctx_Err (w' # ws) idle))"
      and "cycles (snd (Run g ctx_Err (w # w' # ws) idle)) ! 1
          = map (\<lambda>job. collected job w') (jobs g)"
      by (simp_all add: Run_cycles [OF h] idle_def del: Run.simps)
  }
qed

theorem done_context_witness:
  "fst (Run sample_gatherer (Some Canceled) [sample_cycle DoneOnly, sample_cycle DoneOnly] idle)
     = Returned (Some Canceled)
   \<and> length (cycles (snd (Run sample_gatherer (Some Canceled)
               [sample_cycle DoneOnly, sample_cycle DoneOnly] idle))) = 1
   \<and> fst (Run sample_gatherer (Some Canceled) [sample_cycle (Both ctx_Done)] idle)
     = Returned (Some Canceled)
   \<and> length (cycles (snd (Run sample_gatherer (Some Canceled) [sample_cycle (Both ctx_Done)] idle))) = 1
   \<and> cycles (snd (Run sample_gatherer (Some Canceled)
               [sample_cycle (Both ticker_C), sample_cycle DoneOnly] idle)) ! 1
     = map (\<lambda>job. collected job (sample_cycle DoneOnly)) (jobs sample_gatherer)
   \<and> Run bare_gatherer (Some Canceled) [sample_cycle DoneOnly] idle = (Died, idle)"
proof -
  have h: "log sample_gatherer \<noteq> None \<and> (\<forall>job\<in>set (jobs sample_gatherer). equipped job)"
    by (simp add: sample_gatherer_def)
  have bare: "log bare_gatherer = None \<or> (\<exists>job\<in>set (jobs bare_gatherer). \<not> equipped job)"
    by (simp add: bare_gatherer_def)
  have h1: "ready (sample_cycle DoneOnly) = DoneOnly"
    and h2: "chosen (ready (sample_cycle (Both ctx_Done))) = ctx_Done"
    and h3: "ready (sample_cycle (Both ticker_C)) = Both ticker_C"
    by (simp_all add: sample_cycle_def)
  note t = done_context_still_runs_a_cycle [where g = sample_gatherer and ctx_Err = "Some Canceled"]
  note only_done = mp [OF t [where w = "sample_cycle DoneOnly" and ws = "[sample_cycle DoneOnly]",
      THEN conjunct1] h, THEN conjunct2, THEN conjunct2, THEN conjunct2, THEN conjunct1]
  note taken = mp [OF t [where w = "sample_cycle (Both ctx_Done)" and ws = "[]",
      THEN conjunct1] h, THEN conjunct2, THEN conjunct2, THEN conjunct1]
  note tick_picked = mp [OF t [where w = "sample_cycle (Both ticker_C)"
      and w' = "sample_cycle DoneOnly" and ws = "[]", THEN conjunct1] h,
      THEN conjunct2, THEN conjunct2, THEN conjunct2, THEN conjunct2]
  note dies = mp [OF done_context_still_runs_a_cycle [where g = bare_gatherer
      and ctx_Err = "Some Canceled" and w = "sample_cycle DoneOnly" and ws = "[]",
      THEN conjunct2] bare]
  note a = mp [OF only_done h1]
  note b = mp [OF taken h2]
  note c = mp [OF tick_picked h3]
  from a have a1: "fst (Run sample_gatherer (Some Canceled)
                          [sample_cycle DoneOnly, sample_cycle DoneOnly] idle)
                     = Returned (Some Canceled)"
    by (rule conjunct1)
  from a have "cycles (snd (Run sample_gatherer (Some Canceled)
               [sample_cycle DoneOnly, sample_cycle DoneOnly] idle))
          = [map (\<lambda>job. collected job (sample_cycle DoneOnly)) (jobs sample_gatherer)]"
    by (rule conjunct2)
  then have a2: "length (cycles (snd (Run sample_gatherer (Some Canceled)
               [sample_cycle DoneOnly, sample_cycle DoneOnly] idle))) = 1"
    by (simp only: list.size One_nat_def add_0)
  from b have b1: "fst (Run sample_gatherer (Some Canceled) [sample_cycle (Both ctx_Done)] idle)
          = Returned (Some Canceled)"
    by (rule conjunct1)
  from b have "cycles (snd (Run sample_gatherer (Some Canceled) [sample_cycle (Both ctx_Done)] idle))
          = [map (\<lambda>job. collected job (sample_cycle (Both ctx_Done))) (jobs sample_gatherer)]"
    by (rule conjunct2)
  then have b2: "length (cycles (snd (Run sample_gatherer (Some Canceled)
                   [sample_cycle (Both ctx_Done)] idle))) = 1"
    by (simp only: list.size One_nat_def add_0)
  from c have c2: "cycles (snd (Run sample_gatherer (Some Canceled)
               [sample_cycle (Both ticker_C), sample_cycle DoneOnly] idle)) ! 1
     = map (\<lambda>job. collected job (sample_cycle DoneOnly)) (jobs sample_gatherer)"
    by (rule conjunct2)
  from a1 a2 b1 b2 c2 dies show ?thesis
    by (simp only: simp_thms)
qed

end
